theory Spec2Isabelle
  imports Main "HOL-Library.Word"
begin

unbundle bit_operations_syntax

section \<open>Values, addresses and errors\<close>

text \<open>
  Go's \<open>uint64\<close> is a 64-bit word: \<open>+\<close> wraps around. Go's \<open>int\<close> (64 bits, two's
  complement) is kept as its bit pattern, read by \<open>sint\<close> where the sign matters.
  The length and the capacity of a slice are natural numbers; Go keeps both below \<open>2^63\<close>.
\<close>

type_synonym u64 = "64 word"
type_synonym goint = "64 word"

text \<open>
  A field element is kept as its canonical representative, an integer from \<open>0\<close> to below
  the modulus \<open>2^251 + 17 * 2^192 + 1\<close> of the field library the repository imports.
\<close>

type_synonym felt = int

definition P :: int where
  "P = 2 ^ 251 + 17 * 2 ^ 192 + 1"

record MemoryAddress =
  SegmentIndex :: u64
  Offset :: u64

text \<open>The sentinel \<open>memory.UnknownValue\<close>, the zero address \<open>MemoryAddress{}\<close>.\<close>

definition UnknownValue :: MemoryAddress where
  "UnknownValue = \<lparr>SegmentIndex = 0, Offset = 0\<rparr>"

text \<open>
  Modelled from the spec: the type \<open>MemoryValue\<close> (its file is not among the sources):
  a tagged union of a field element and an address, with the zero value
  \<open>MemoryValue{}\<close> of a cell that was never written, which is not \<open>Known\<close>.
\<close>

datatype MemoryValue = Unknown | Felt felt | Address MemoryAddress

text \<open>Modelled from the spec: a value is known iff it has been explicitly written.\<close>

fun Known :: "MemoryValue \<Rightarrow> bool" where
  "Known Unknown = False"
| "Known (Felt _) = True"
| "Known (Address _) = True"

fun IsAddress :: "MemoryValue \<Rightarrow> bool" where
  "IsAddress (Address _) = True"
| "IsAddress _ = False"

fun IsFelt :: "MemoryValue \<Rightarrow> bool" where
  "IsFelt (Felt _) = True"
| "IsFelt _ = False"

text \<open>Modelled from the spec: equality is structural on tag and payload.\<close>

definition Equal :: "MemoryValue \<Rightarrow> MemoryValue \<Rightarrow> bool" where
  "Equal a b = (a = b)"

definition EmptyMemoryValueAsFelt :: MemoryValue where
  "EmptyMemoryValueAsFelt = Felt 0"

definition EmptyMemoryValueAsAddress :: MemoryValue where
  "EmptyMemoryValueAsAddress = Address UnknownValue"

definition EmptyMemoryValueAs :: "bool \<Rightarrow> MemoryValue" where
  "EmptyMemoryValueAs address =
     (if address then EmptyMemoryValueAsAddress else EmptyMemoryValueAsFelt)"

definition MemoryValueFromMemoryAddress :: "MemoryAddress \<Rightarrow> MemoryValue" where
  "MemoryValueFromMemoryAddress a = Address a"

definition MemoryValueFromSegmentAndOffset :: "u64 \<Rightarrow> u64 \<Rightarrow> MemoryValue" where
  "MemoryValueFromSegmentAndOffset s off = Address \<lparr>SegmentIndex = s, Offset = off\<rparr>"

definition MemoryValueFromFieldElement :: "felt \<Rightarrow> MemoryValue" where
  "MemoryValueFromFieldElement x = Felt x"

definition MemoryValueFromUint :: "u64 \<Rightarrow> MemoryValue" where
  "MemoryValueFromUint x = Felt (uint x)"

text \<open>
  The errors of the repository are Go \<open>error\<close> values built from format strings; the
  constructors below name them by the taxonomy of the specification. A Go panic
  (an index out of range, a failed \<open>make\<close>, the explicit \<open>panic\<close> of
  \<open>IncreaseSegmentSize\<close>) is the value \<open>GoPanic\<close>.
\<close>

datatype error =
    ErrRewriteCell
  | ErrUnallocatedSegment
  | ErrUnknownValue
  | ErrInvalidInstruction
  | ErrTypeMismatch
  | ErrOffsetOverflow
  | ErrDivisionByZero
  | ErrMaxStepsExceeded
  | ErrMissingLabel
  | ErrUnknownEntrypoint
  | ErrReRun
  | ErrProofModeOff
  | GoPanic

section \<open>Segments\<close>

text \<open>\<open>NoBuiltin\<close> is the only implementation of the interface \<open>BuiltinRunner\<close> in the sources.\<close>

datatype BuiltinRunner = NoBuiltin

text \<open>
  \<open>Data\<close> is the slice, \<open>Cap\<close> its capacity. The cells of the backing array beyond the
  length of the slice are zero values: no operation ever shortens \<open>Data\<close>.
\<close>

record Segment =
  Data :: "MemoryValue list"
  Cap :: nat
  LastIndex :: goint
  BuiltinRunner :: BuiltinRunner

definition EmptySegment :: Segment where
  "EmptySegment = \<lparr>Data = [], Cap = 100, LastIndex = - 1, BuiltinRunner = NoBuiltin\<rparr>"

definition EmptySegmentWithCapacity :: "nat \<Rightarrow> Segment" where
  "EmptySegmentWithCapacity capacity =
     \<lparr>Data = [], Cap = capacity, LastIndex = - 1, BuiltinRunner = NoBuiltin\<rparr>"

definition EmptySegmentWithLength :: "nat \<Rightarrow> Segment" where
  "EmptySegmentWithLength n =
     \<lparr>Data = replicate n Unknown, Cap = n, LastIndex = word_of_nat n - 1,
      BuiltinRunner = NoBuiltin\<rparr>"

definition WithBuiltinRunner :: "Segment \<Rightarrow> BuiltinRunner \<Rightarrow> Segment" where
  "WithBuiltinRunner segment builtinRunner = segment\<lparr>BuiltinRunner := builtinRunner\<rparr>"

definition Len :: "Segment \<Rightarrow> u64" where
  "Len segment = LastIndex segment + 1"

definition RealLen :: "Segment \<Rightarrow> nat" where
  "RealLen segment = length (Data segment)"

text \<open>
  \<open>IncreaseSegmentSize\<close>: the comparisons are on Go's \<open>int\<close>, so a \<open>newSize\<close> of
  \<open>2^63\<close> or more reads as a negative number. \<open>make\<close> of a length that does not fit
  an \<open>int\<close> panics; every other allocation is taken to succeed.
\<close>

definition IncreaseSegmentSize :: "Segment \<Rightarrow> u64 \<Rightarrow> Segment \<times> error option" where
  "IncreaseSegmentSize segment newSize =
     (let segmentData = Data segment in
      if int (length segmentData) > sint newSize then (segment, Some GoPanic)
      else if int (Cap segment) > sint newSize then
        (segment\<lparr>Data := segmentData @ replicate (Cap segment - length segmentData) Unknown\<rparr>,
         None)
      else
        (let n = max (unat newSize) (length segmentData * 2) in
         if 2 ^ 63 \<le> n then (segment, Some GoPanic)
         else
           (segment\<lparr>Data := segmentData @ replicate (n - length segmentData) Unknown,
                     Cap := n\<rparr>, None)))"

fun CheckWrite :: "BuiltinRunner \<Rightarrow> Segment \<Rightarrow> u64 \<Rightarrow> MemoryValue \<Rightarrow> error option" where
  "CheckWrite NoBuiltin segment offset v = None"

fun InferValue :: "BuiltinRunner \<Rightarrow> Segment \<Rightarrow> u64 \<Rightarrow> Segment \<times> error option" where
  "InferValue NoBuiltin segment offset =
     (if unat offset < length (Data segment)
      then (segment\<lparr>Data := (Data segment)[unat offset := EmptyMemoryValueAsFelt]\<rparr>, None)
      else (segment, Some GoPanic))"

text \<open>
  The first statement of \<open>Write\<close>, \<open>Read\<close> and \<open>Peek\<close>: grow the slice when the offset
  is at or beyond its physical length.
\<close>

definition grow_to :: "Segment \<Rightarrow> u64 \<Rightarrow> Segment \<times> error option" where
  "grow_to segment offset =
     (if unat offset \<ge> RealLen segment then IncreaseSegmentSize segment (offset + 1)
      else (segment, None))"

definition Segment_Write :: "Segment \<Rightarrow> u64 \<Rightarrow> MemoryValue \<Rightarrow> Segment \<times> error option" where
  "Segment_Write segment offset v =
     (case grow_to segment offset of
        (s1, Some e) \<Rightarrow> (s1, Some e)
      | (s1, None) \<Rightarrow>
          (let s2 = (if offset \<ge> Len s1 then s1\<lparr>LastIndex := offset\<rparr> else s1) in
           if unat offset \<ge> length (Data s2) then (s2, Some GoPanic)
           else
             (let cell = Data s2 ! unat offset in
              if Known cell \<and> \<not> Equal cell v then (s2, Some ErrRewriteCell)
              else
                (let s3 = s2\<lparr>Data := (Data s2)[unat offset := v]\<rparr> in
                 (s3, CheckWrite (BuiltinRunner s3) s3 offset v)))))"

text \<open>\<open>Read\<close> compares with \<open>offset > segment.Len()\<close> where \<open>Write\<close> and \<open>Peek\<close> have \<open>>=\<close>.\<close>

definition Segment_Read :: "Segment \<Rightarrow> u64 \<Rightarrow> Segment \<times> (error + MemoryValue)" where
  "Segment_Read segment offset =
     (case grow_to segment offset of
        (s1, Some e) \<Rightarrow> (s1, Inl e)
      | (s1, None) \<Rightarrow>
          (let s2 = (if offset > Len s1 then s1\<lparr>LastIndex := offset\<rparr> else s1) in
           if unat offset \<ge> length (Data s2) then (s2, Inl GoPanic)
           else if \<not> Known (Data s2 ! unat offset) then
             (case InferValue (BuiltinRunner s2) s2 offset of
                (s3, Some e) \<Rightarrow> (s3, Inl e)
              | (s3, None) \<Rightarrow> (s3, Inr (Data s3 ! unat offset)))
           else (s2, Inr (Data s2 ! unat offset))))"

definition Segment_Peek :: "Segment \<Rightarrow> u64 \<Rightarrow> Segment \<times> (error + MemoryValue)" where
  "Segment_Peek segment offset =
     (case grow_to segment offset of
        (s1, Some e) \<Rightarrow> (s1, Inl e)
      | (s1, None) \<Rightarrow>
          (let s2 = (if offset \<ge> Len s1 then s1\<lparr>LastIndex := offset\<rparr> else s1) in
           if unat offset \<ge> length (Data s2) then (s2, Inl GoPanic)
           else (s2, Inr (Data s2 ! unat offset))))"

text \<open>
  The segments the sources can build: the three constructors, followed by any sequence of
  the operations of a segment. (A panic and an error leave the segment as it is at that
  point, so the first component of every result is such a segment too.)
\<close>

inductive segment_reachable :: "Segment \<Rightarrow> bool" where
  reach_EmptySegment: "segment_reachable EmptySegment"
| reach_WithCapacity: "segment_reachable (EmptySegmentWithCapacity c)"
| reach_WithLength: "segment_reachable (EmptySegmentWithLength n)"
| reach_WithBuiltinRunner:
    "segment_reachable s \<Longrightarrow> segment_reachable (WithBuiltinRunner s b)"
| reach_IncreaseSegmentSize:
    "segment_reachable s \<Longrightarrow> segment_reachable (fst (IncreaseSegmentSize s n'))"
| reach_Write: "segment_reachable s \<Longrightarrow> segment_reachable (fst (Segment_Write s off v))"
| reach_Read: "segment_reachable s \<Longrightarrow> segment_reachable (fst (Segment_Read s off))"
| reach_Peek: "segment_reachable s \<Longrightarrow> segment_reachable (fst (Segment_Peek s off))"

text \<open>Every slice is either empty or fills its capacity.\<close>

definition full_or_empty :: "Segment \<Rightarrow> bool" where
  "full_or_empty s = (Data s = [] \<or> length (Data s) = Cap s)"

section \<open>Memory\<close>

record Memory =
  Segments :: "Segment list"

definition InitializeEmptyMemory :: Memory where
  "InitializeEmptyMemory = \<lparr>Segments = []\<rparr>"

text \<open>The loop of \<open>AllocateSegment\<close>: write \<open>data[i]\<close> at offset \<open>i\<close>, stop at the first error.\<close>

fun write_data :: "Segment \<Rightarrow> nat \<Rightarrow> felt list \<Rightarrow> Segment \<times> error option" where
  "write_data newSegment i [] = (newSegment, None)"
| "write_data newSegment i (x # xs) =
     (case Segment_Write newSegment (word_of_nat i) (MemoryValueFromFieldElement x) of
        (s, Some e) \<Rightarrow> (s, Some e)
      | (s, None) \<Rightarrow> write_data s (Suc i) xs)"

definition AllocateSegment :: "Memory \<Rightarrow> felt list \<Rightarrow> Memory \<times> (error + nat)" where
  "AllocateSegment memory data =
     (case write_data (EmptySegmentWithLength (length data)) 0 data of
        (s, Some e) \<Rightarrow> (memory, Inl e)
      | (s, None) \<Rightarrow>
          (memory\<lparr>Segments := Segments memory @ [s]\<rparr>, Inr (length (Segments memory))))"

definition AllocateEmptySegment :: "Memory \<Rightarrow> Memory \<times> nat" where
  "AllocateEmptySegment memory =
     (memory\<lparr>Segments := Segments memory @ [EmptySegment]\<rparr>, length (Segments memory))"

definition Memory_Write :: "Memory \<Rightarrow> u64 \<Rightarrow> u64 \<Rightarrow> MemoryValue \<Rightarrow> Memory \<times> error option" where
  "Memory_Write memory segmentIndex offset v =
     (if unat segmentIndex \<ge> length (Segments memory) then (memory, Some ErrUnallocatedSegment)
      else
        (case Segment_Write (Segments memory ! unat segmentIndex) offset v of
           (s, e) \<Rightarrow> (memory\<lparr>Segments := (Segments memory)[unat segmentIndex := s]\<rparr>, e)))"

definition WriteToAddress :: "Memory \<Rightarrow> MemoryAddress \<Rightarrow> MemoryValue \<Rightarrow> Memory \<times> error option" where
  "WriteToAddress memory address v = Memory_Write memory (SegmentIndex address) (Offset address) v"

definition Memory_Read :: "Memory \<Rightarrow> u64 \<Rightarrow> u64 \<Rightarrow> Memory \<times> (error + MemoryValue)" where
  "Memory_Read memory segmentIndex offset =
     (if unat segmentIndex \<ge> length (Segments memory) then (memory, Inl ErrUnallocatedSegment)
      else
        (case Segment_Read (Segments memory ! unat segmentIndex) offset of
           (s, r) \<Rightarrow> (memory\<lparr>Segments := (Segments memory)[unat segmentIndex := s]\<rparr>, r)))"

definition ReadFromAddress :: "Memory \<Rightarrow> MemoryAddress \<Rightarrow> Memory \<times> (error + MemoryValue)" where
  "ReadFromAddress memory address = Memory_Read memory (SegmentIndex address) (Offset address)"

definition Memory_Peek :: "Memory \<Rightarrow> u64 \<Rightarrow> u64 \<Rightarrow> Memory \<times> (error + MemoryValue)" where
  "Memory_Peek memory segmentIndex offset =
     (if unat segmentIndex \<ge> length (Segments memory) then (memory, Inl ErrUnallocatedSegment)
      else
        (case Segment_Peek (Segments memory ! unat segmentIndex) offset of
           (s, r) \<Rightarrow> (memory\<lparr>Segments := (Segments memory)[unat segmentIndex := s]\<rparr>, r)))"

definition PeekFromAddress :: "Memory \<Rightarrow> MemoryAddress \<Rightarrow> Memory \<times> (error + MemoryValue)" where
  "PeekFromAddress memory address = Memory_Peek memory (SegmentIndex address) (Offset address)"

section \<open>Arithmetic of memory values\<close>

text \<open>
  Modelled from the spec: the arithmetic of field elements and of memory values (the
  field library and the file of \<open>MemoryValue\<close> and \<open>MemoryAddress\<close> are not among the
  sources). The field is the prime field of order \<open>P\<close>; the inverse is the power
  \<open>P - 2\<close>, computed by squaring.
\<close>

definition felt_add :: "felt \<Rightarrow> felt \<Rightarrow> felt" where
  "felt_add a b = (a + b) mod P"

definition felt_sub :: "felt \<Rightarrow> felt \<Rightarrow> felt" where
  "felt_sub a b = (a - b) mod P"

definition felt_mul :: "felt \<Rightarrow> felt \<Rightarrow> felt" where
  "felt_mul a b = (a * b) mod P"

function felt_pow :: "felt \<Rightarrow> int \<Rightarrow> felt" where
  "felt_pow a n =
     (if n \<le> 0 then 1
      else if even n then felt_pow (felt_mul a a) (n div 2)
      else felt_mul a (felt_pow (felt_mul a a) (n div 2)))"
  by pat_completeness auto
termination
  by (relation "measure (\<lambda>(a, n). nat n)") auto

declare felt_pow.simps [simp del]

definition felt_inv :: "felt \<Rightarrow> felt" where
  "felt_inv a = felt_pow a (P - 2)"

definition felt_div :: "felt \<Rightarrow> felt \<Rightarrow> felt" where
  "felt_div a b = felt_mul a (felt_inv b)"

text \<open>A memory value whose field element, if it is one, is a canonical representative.\<close>

definition canonical :: "MemoryValue \<Rightarrow> bool" where
  "canonical mv = (case mv of Felt x \<Rightarrow> 0 \<le> x \<and> x < P | _ \<Rightarrow> True)"

text \<open>
  Modelled from the spec: \<open>Address + Felt\<close> is an address of the same segment; the sum of
  the offset and the field element is taken in the field and has to fit 64 bits.
\<close>

definition MemoryAddress_Add :: "MemoryAddress \<Rightarrow> felt \<Rightarrow> error + MemoryAddress" where
  "MemoryAddress_Add lhs rhs =
     (let newOffset = felt_add (uint (Offset lhs)) rhs in
      if newOffset < 2 ^ 64
      then Inr \<lparr>SegmentIndex = SegmentIndex lhs, Offset = word_of_int newOffset\<rparr>
      else Inl ErrOffsetOverflow)"

definition MemoryAddress_Sub :: "MemoryAddress \<Rightarrow> felt \<Rightarrow> error + MemoryAddress" where
  "MemoryAddress_Sub lhs rhs =
     (let newOffset = felt_sub (uint (Offset lhs)) rhs in
      if newOffset < 2 ^ 64
      then Inr \<lparr>SegmentIndex = SegmentIndex lhs, Offset = word_of_int newOffset\<rparr>
      else Inl ErrOffsetOverflow)"

definition ToMemoryAddress :: "MemoryValue \<Rightarrow> error + MemoryAddress" where
  "ToMemoryAddress mv = (case mv of Address a \<Rightarrow> Inr a | _ \<Rightarrow> Inl ErrTypeMismatch)"

definition ToFieldElement :: "MemoryValue \<Rightarrow> error + felt" where
  "ToFieldElement mv = (case mv of Felt x \<Rightarrow> Inr x | _ \<Rightarrow> Inl ErrTypeMismatch)"

definition Uint64 :: "MemoryValue \<Rightarrow> error + u64" where
  "Uint64 mv =
     (case mv of
        Felt x \<Rightarrow> if x < 2 ^ 64 then Inr (word_of_int x) else Inl ErrTypeMismatch
      | _ \<Rightarrow> Inl ErrTypeMismatch)"

text \<open>
  Modelled from the spec: \<open>Address \<plusminus> Felt\<close> is an address, \<open>Address - Address\<close> (of one
  segment) a field element, \<open>Felt op Felt\<close> a field element; every other mix is refused, and
  so is a division by zero. The Go methods store the result in their receiver, which the
  callers create with \<open>EmptyMemoryValueAs\<close>: the first argument is that receiver, and the
  result takes its place.
\<close>

fun MemoryValue_Add :: "MemoryValue \<Rightarrow> MemoryValue \<Rightarrow> MemoryValue \<Rightarrow> error + MemoryValue" where
  "MemoryValue_Add mv (Felt a) (Felt b) = Inr (Felt (felt_add a b))"
| "MemoryValue_Add mv (Address a) (Felt b) = map_sum id Address (MemoryAddress_Add a b)"
| "MemoryValue_Add mv (Felt a) (Address b) = map_sum id Address (MemoryAddress_Add b a)"
| "MemoryValue_Add mv _ _ = Inl ErrTypeMismatch"

fun MemoryValue_Sub :: "MemoryValue \<Rightarrow> MemoryValue \<Rightarrow> MemoryValue \<Rightarrow> error + MemoryValue" where
  "MemoryValue_Sub mv (Felt a) (Felt b) = Inr (Felt (felt_sub a b))"
| "MemoryValue_Sub mv (Address a) (Felt b) = map_sum id Address (MemoryAddress_Sub a b)"
| "MemoryValue_Sub mv (Address a) (Address b) =
     (if SegmentIndex a = SegmentIndex b
      then Inr (Felt (felt_sub (uint (Offset a)) (uint (Offset b))))
      else Inl ErrTypeMismatch)"
| "MemoryValue_Sub mv _ _ = Inl ErrTypeMismatch"

fun MemoryValue_Mul :: "MemoryValue \<Rightarrow> MemoryValue \<Rightarrow> MemoryValue \<Rightarrow> error + MemoryValue" where
  "MemoryValue_Mul mv (Felt a) (Felt b) = Inr (Felt (felt_mul a b))"
| "MemoryValue_Mul mv _ _ = Inl ErrTypeMismatch"

fun MemoryValue_Div :: "MemoryValue \<Rightarrow> MemoryValue \<Rightarrow> MemoryValue \<Rightarrow> error + MemoryValue" where
  "MemoryValue_Div mv (Felt a) (Felt b) =
     (if b mod P = 0 then Inl ErrDivisionByZero else Inr (Felt (felt_div a b)))"
| "MemoryValue_Div mv _ _ = Inl ErrTypeMismatch"

section \<open>Instructions\<close>

text \<open>
  Modelled from the spec: the type \<open>Instruction\<close> with its flags (the decoder's file is
  not among the sources). The constants \<open>Ap\<close> and \<open>Fp\<close> of the register flag are written
  \<open>RegAp\<close> and \<open>RegFp\<close>, the opcode \<open>Nop\<close> is the \<open>NopOrAssertEq'\<close> of the specification. The
  three offsets are signed 16-bit numbers. The size of an instruction is 2 iff its second
  operand is the immediate.
\<close>

datatype Register = RegAp | RegFp
datatype Op1Src = Op0 | Imm | FpPlusOffOp1 | ApPlusOffOp1
datatype ResLogic = Op1 | AddOperands | MulOperands | Unconstrained
datatype PcUpdate = NextInstr | Jump | JumpRel | Jnz
datatype ApUpdate = SameAp | AddImm | Add1 | Add2
datatype Opcode = Nop | Call | Ret | AssertEq

record Instruction =
  OffDest :: "16 word"
  OffOp0 :: "16 word"
  OffOp1 :: "16 word"
  DstRegister :: Register
  Op0Register :: Register
  Op1Source :: Op1Src
  Res :: ResLogic
  PcUpdate :: PcUpdate
  ApUpdate :: ApUpdate
  Opcode :: Opcode

definition Size :: "Instruction \<Rightarrow> u64" where
  "Size instruction = (if Op1Source instruction = Imm then 2 else 1)"

text \<open>
  Modelled from the spec: \<open>safemath.SafeOffset\<close>, the overflow-checked addition of a signed
  offset to an unsigned 64-bit number; the flag says that the sum left the 64 bits.
\<close>

definition SafeOffset :: "u64 \<Rightarrow> 16 word \<Rightarrow> u64 \<times> bool" where
  "SafeOffset x y =
     (let r = uint x + sint y in (word_of_int r, r < 0 \<or> 2 ^ 64 \<le> r))"

section \<open>The virtual machine\<close>

definition ProgramSegment :: u64 where
  "ProgramSegment = 0"

definition ExecutionSegment :: u64 where
  "ExecutionSegment = 1"

record Context =
  Pc :: MemoryAddress
  Fp :: u64
  Ap :: u64

definition AddressAp :: "Context \<Rightarrow> MemoryAddress" where
  "AddressAp ctx = \<lparr>SegmentIndex = ExecutionSegment, Offset = Ap ctx\<rparr>"

definition AddressFp :: "Context \<Rightarrow> MemoryAddress" where
  "AddressFp ctx = \<lparr>SegmentIndex = ExecutionSegment, Offset = Fp ctx\<rparr>"

definition AddressPc :: "Context \<Rightarrow> MemoryAddress" where
  "AddressPc ctx = \<lparr>SegmentIndex = SegmentIndex (Pc ctx), Offset = Offset (Pc ctx)\<rparr>"

text \<open>
  The struct \<open>Trace\<close> has the fields \<open>Pc\<close>, \<open>Fp\<close> and \<open>Ap\<close>, in this order; they are written
  \<open>Trace_Pc\<close>, \<open>Trace_Fp\<close> and \<open>Trace_Ap\<close> here, apart from the fields of \<open>Context\<close>.
\<close>

record Trace =
  Trace_Pc :: u64
  Trace_Fp :: u64
  Trace_Ap :: u64

definition Relocate :: "Context \<Rightarrow> u64 \<Rightarrow> Trace" where
  "Relocate ctx executionSegmentOffset =
     \<lparr>Trace_Pc = Offset (Pc ctx) + 1,
      Trace_Fp = Fp ctx + executionSegmentOffset,
      Trace_Ap = Ap ctx + executionSegmentOffset\<rparr>"

record VirtualMachineConfig =
  ProofMode :: bool

record VirtualMachine =
  Context :: Context
  Memory :: Memory
  Step :: u64
  Trace :: "Context list"
  config :: VirtualMachineConfig
  instructions :: "u64 \<rightharpoonup> Instruction"

definition NewVirtualMachine ::
  "Context \<Rightarrow> Memory \<Rightarrow> VirtualMachineConfig \<Rightarrow> error + VirtualMachine" where
  "NewVirtualMachine initialContext memory cfg =
     Inr \<lparr>Context = initialContext, Memory = memory, Step = 0, Trace = [], config = cfg,
          instructions = Map.empty\<rparr>"

text \<open>
  The methods of \<open>VirtualMachine\<close> that \<open>RunInstruction\<close> calls read \<open>vm.Context\<close> and read
  and write \<open>vm.Memory\<close> only: they take the context and the memory and return the memory.
\<close>

definition getDstAddr :: "Context \<Rightarrow> Instruction \<Rightarrow> error + MemoryAddress" where
  "getDstAddr ctx instruction =
     (let dstRegister = (if DstRegister instruction = RegAp then Ap ctx else Fp ctx) in
      case SafeOffset dstRegister (OffDest instruction) of
        (addr, isOverflow) \<Rightarrow>
          if isOverflow then Inl ErrOffsetOverflow
          else Inr \<lparr>SegmentIndex = ExecutionSegment, Offset = addr\<rparr>)"

definition getOp0Addr :: "Context \<Rightarrow> Instruction \<Rightarrow> error + MemoryAddress" where
  "getOp0Addr ctx instruction =
     (let op0Register = (if Op0Register instruction = RegAp then Ap ctx else Fp ctx) in
      case SafeOffset op0Register (OffOp0 instruction) of
        (addr, isOverflow) \<Rightarrow>
          if isOverflow then Inl ErrOffsetOverflow
          else Inr \<lparr>SegmentIndex = ExecutionSegment, Offset = addr\<rparr>)"

definition op1_offset :: "Instruction \<Rightarrow> MemoryAddress \<Rightarrow> error + MemoryAddress" where
  "op1_offset instruction op1Address =
     (case SafeOffset (Offset op1Address) (OffOp1 instruction) of
        (addr, isOverflow) \<Rightarrow>
          if isOverflow then Inl ErrOffsetOverflow
          else Inr (op1Address\<lparr>Offset := addr\<rparr>))"

definition getOp1Addr ::
  "Context \<Rightarrow> Memory \<Rightarrow> Instruction \<Rightarrow> MemoryAddress \<Rightarrow> Memory \<times> (error + MemoryAddress)" where
  "getOp1Addr ctx memory instruction op0Addr =
     (case Op1Source instruction of
        Op0 \<Rightarrow>
          (case ReadFromAddress memory op0Addr of
             (m, Inl e) \<Rightarrow> (m, Inl e)
           | (m, Inr op0Value) \<Rightarrow>
               (case ToMemoryAddress op0Value of
                  Inl e \<Rightarrow> (m, Inl e)
                | Inr op0Address \<Rightarrow>
                    (m, op1_offset instruction
                          \<lparr>SegmentIndex = SegmentIndex op0Address, Offset = Offset op0Address\<rparr>)))
      | Imm \<Rightarrow> (memory, op1_offset instruction (AddressPc ctx))
      | FpPlusOffOp1 \<Rightarrow> (memory, op1_offset instruction (AddressFp ctx))
      | ApPlusOffOp1 \<Rightarrow> (memory, op1_offset instruction (AddressAp ctx)))"

text \<open>
  \<open>inferOperand\<close>: the result \<open>Unknown\<close> (the zero \<open>MemoryValue{}\<close>) says that nothing was
  inferred and \<open>computeRes\<close> has to run.
\<close>

definition inferOperand ::
  "Memory \<Rightarrow> Instruction \<Rightarrow> MemoryAddress \<Rightarrow> MemoryAddress \<Rightarrow> MemoryAddress \<Rightarrow>
   Memory \<times> (error + MemoryValue)" where
  "inferOperand memory instruction dstAddr op0Addr op1Addr =
     (if Opcode instruction \<noteq> AssertEq \<or>
         (Res instruction \<noteq> AddOperands \<and> Res instruction \<noteq> MulOperands)
      then (memory, Inr Unknown)
      else
        (case PeekFromAddress memory op0Addr of
           (m1, Inl e) \<Rightarrow> (m1, Inl e)
         | (m1, Inr op0Value) \<Rightarrow>
             (case PeekFromAddress m1 op1Addr of
                (m2, Inl e) \<Rightarrow> (m2, Inl e)
              | (m2, Inr op1Value) \<Rightarrow>
                  if Known op0Value \<and> Known op1Value then (m2, Inr Unknown)
                  else
                    (case PeekFromAddress m2 dstAddr of
                       (m3, Inl e) \<Rightarrow> (m3, Inl e)
                     | (m3, Inr dstValue) \<Rightarrow>
                         if \<not> Known dstValue then (m3, Inl ErrUnknownValue)
                         else
                           (let knownOpValue = (if Known op0Value then op0Value else op1Value);
                                unknownOpAddr = (if Known op0Value then op1Addr else op0Addr);
                                missing =
                                  (if Res instruction = AddOperands
                                   then MemoryValue_Sub (EmptyMemoryValueAs (IsAddress dstValue))
                                          dstValue knownOpValue
                                   else MemoryValue_Div EmptyMemoryValueAsFelt
                                          dstValue knownOpValue)
                            in case missing of
                                 Inl e \<Rightarrow> (m3, Inl e)
                               | Inr missingVal \<Rightarrow>
                                   (case WriteToAddress m3 unknownOpAddr missingVal of
                                      (m4, Some e) \<Rightarrow> (m4, Inl e)
                                    | (m4, None) \<Rightarrow> (m4, Inr dstValue)))))))"

definition computeRes ::
  "Memory \<Rightarrow> Instruction \<Rightarrow> MemoryAddress \<Rightarrow> MemoryAddress \<Rightarrow> Memory \<times> (error + MemoryValue)" where
  "computeRes memory instruction op0Addr op1Addr =
     (case Res instruction of
        Unconstrained \<Rightarrow> (memory, Inr Unknown)
      | Op1 \<Rightarrow> ReadFromAddress memory op1Addr
      | _ \<Rightarrow>
          (case ReadFromAddress memory op0Addr of
             (m1, Inl e) \<Rightarrow> (m1, Inl e)
           | (m1, Inr op0) \<Rightarrow>
               (case ReadFromAddress m1 op1Addr of
                  (m2, Inl e) \<Rightarrow> (m2, Inl e)
                | (m2, Inr op1) \<Rightarrow>
                    (let res = EmptyMemoryValueAs (IsAddress op0 \<or> IsAddress op1) in
                     if Res instruction = AddOperands then (m2, MemoryValue_Add res op0 op1)
                     else if Res instruction = MulOperands then (m2, MemoryValue_Mul res op0 op1)
                     else (m2, Inl ErrInvalidInstruction)))))"

definition opcodeAssertions ::
  "Context \<Rightarrow> Memory \<Rightarrow> Instruction \<Rightarrow> MemoryAddress \<Rightarrow> MemoryAddress \<Rightarrow> MemoryValue \<Rightarrow>
   Memory \<times> error option" where
  "opcodeAssertions ctx memory instruction dstAddr op0Addr res =
     (case Opcode instruction of
        Call \<Rightarrow>
          (let fpMv = MemoryValueFromMemoryAddress (AddressFp ctx) in
           case WriteToAddress memory dstAddr fpMv of
             (m1, Some e) \<Rightarrow> (m1, Some e)
           | (m1, None) \<Rightarrow>
               (let apMv = MemoryValueFromSegmentAndOffset (SegmentIndex (Pc ctx))
                             (Offset (Pc ctx) + Size instruction)
                in WriteToAddress m1 op0Addr apMv))
      | AssertEq \<Rightarrow> WriteToAddress memory dstAddr res
      | _ \<Rightarrow> (memory, None))"

definition updatePc ::
  "Context \<Rightarrow> Memory \<Rightarrow> Instruction \<Rightarrow> MemoryAddress \<Rightarrow> MemoryAddress \<Rightarrow> MemoryValue \<Rightarrow>
   Memory \<times> (error + MemoryAddress)" where
  "updatePc ctx memory instruction dstAddr op1Addr res =
     (case PcUpdate instruction of
        NextInstr \<Rightarrow>
          (memory, Inr \<lparr>SegmentIndex = SegmentIndex (Pc ctx),
                        Offset = Offset (Pc ctx) + Size instruction\<rparr>)
      | Jump \<Rightarrow> (memory, ToMemoryAddress res)
      | JumpRel \<Rightarrow>
          (case ToFieldElement res of
             Inl e \<Rightarrow> (memory, Inl e)
           | Inr val \<Rightarrow> (memory, MemoryAddress_Add (Pc ctx) val))
      | Jnz \<Rightarrow>
          (case ReadFromAddress memory dstAddr of
             (m1, Inl e) \<Rightarrow> (m1, Inl e)
           | (m1, Inr destMv) \<Rightarrow>
               (case ToFieldElement destMv of
                  Inl e \<Rightarrow> (m1, Inl e)
                | Inr dest \<Rightarrow>
                    if dest mod P = 0 then
                      (m1, Inr \<lparr>SegmentIndex = SegmentIndex (Pc ctx),
                                Offset = Offset (Pc ctx) + Size instruction\<rparr>)
                    else
                      (case ReadFromAddress m1 op1Addr of
                         (m2, Inl e) \<Rightarrow> (m2, Inl e)
                       | (m2, Inr op1Mv) \<Rightarrow>
                           (case ToFieldElement op1Mv of
                              Inl e \<Rightarrow> (m2, Inl e)
                            | Inr val \<Rightarrow> (m2, MemoryAddress_Add (Pc ctx) val))))))"

definition updateAp :: "Context \<Rightarrow> Instruction \<Rightarrow> MemoryValue \<Rightarrow> error + u64" where
  "updateAp ctx instruction res =
     (case ApUpdate instruction of
        SameAp \<Rightarrow> Inr (Ap ctx)
      | AddImm \<Rightarrow> (case Uint64 res of Inl e \<Rightarrow> Inl e | Inr res64 \<Rightarrow> Inr (Ap ctx + res64))
      | Add1 \<Rightarrow> Inr (Ap ctx + 1)
      | Add2 \<Rightarrow> Inr (Ap ctx + 2))"

definition updateFp ::
  "Context \<Rightarrow> Memory \<Rightarrow> Instruction \<Rightarrow> MemoryAddress \<Rightarrow> Memory \<times> (error + u64)" where
  "updateFp ctx memory instruction dstAddr =
     (case Opcode instruction of
        Call \<Rightarrow> (memory, Inr (Ap ctx + 2))
      | Ret \<Rightarrow>
          (case ReadFromAddress memory dstAddr of
             (m1, Inl e) \<Rightarrow> (m1, Inl e)
           | (m1, Inr destMv) \<Rightarrow>
               (case ToMemoryAddress destMv of
                  Inl e \<Rightarrow> (m1, Inl e)
                | Inr dst \<Rightarrow> (m1, Inr (Offset dst))))
      | _ \<Rightarrow> (memory, Inr (Fp ctx)))"

text \<open>
  \<open>RunInstruction\<close> returns the memory as the instruction left it and, when every part
  succeeded, the next context; on an error \<open>vm.Context\<close> is as before.
\<close>

definition RunInstruction ::
  "Context \<Rightarrow> Memory \<Rightarrow> Instruction \<Rightarrow> Memory \<times> (error + Context)" where
  "RunInstruction ctx memory instruction =
     (case getDstAddr ctx instruction of
        Inl e \<Rightarrow> (memory, Inl e)
      | Inr dstAddr \<Rightarrow>
     (case getOp0Addr ctx instruction of
        Inl e \<Rightarrow> (memory, Inl e)
      | Inr op0Addr \<Rightarrow>
     (case getOp1Addr ctx memory instruction op0Addr of
        (m1, Inl e) \<Rightarrow> (m1, Inl e)
      | (m1, Inr op1Addr) \<Rightarrow>
     (case inferOperand m1 instruction dstAddr op0Addr op1Addr of
        (m2, Inl e) \<Rightarrow> (m2, Inl e)
      | (m2, Inr inferred) \<Rightarrow>
     (case (if \<not> Known inferred then computeRes m2 instruction op0Addr op1Addr
            else (m2, Inr inferred)) of
        (m3, Inl e) \<Rightarrow> (m3, Inl e)
      | (m3, Inr res) \<Rightarrow>
     (case opcodeAssertions ctx m3 instruction dstAddr op0Addr res of
        (m4, Some e) \<Rightarrow> (m4, Inl e)
      | (m4, None) \<Rightarrow>
     (case updatePc ctx m4 instruction dstAddr op1Addr res of
        (m5, Inl e) \<Rightarrow> (m5, Inl e)
      | (m5, Inr nextPc) \<Rightarrow>
     (case updateAp ctx instruction res of
        Inl e \<Rightarrow> (m5, Inl e)
      | Inr nextAp \<Rightarrow>
     (case updateFp ctx m5 instruction dstAddr of
        (m6, Inl e) \<Rightarrow> (m6, Inl e)
      | (m6, Inr nextFp) \<Rightarrow>
          (m6, Inr \<lparr>Pc = nextPc, Fp = nextFp, Ap = nextAp\<rparr>))))))))))"

text \<open>
  \<open>DecodeInstruction\<close> is not among the sources: \<open>RunStep\<close> and the functions that call it
  take it as the parameter \<open>decode\<close>. The hint runner that \<open>RunStep\<close> receives is never used.
\<close>

definition fetch ::
  "(felt \<Rightarrow> error + Instruction) \<Rightarrow> VirtualMachine \<Rightarrow> VirtualMachine \<times> (error + Instruction)" where
  "fetch decode vm =
     (case instructions vm (Offset (Pc (Context vm))) of
        Some instruction \<Rightarrow> (vm, Inr instruction)
      | None \<Rightarrow>
          (case ReadFromAddress (Memory vm) (Pc (Context vm)) of
             (m, Inl e) \<Rightarrow> (vm\<lparr>Memory := m\<rparr>, Inl e)
           | (m, Inr memoryValue) \<Rightarrow>
               (case ToFieldElement memoryValue of
                  Inl e \<Rightarrow> (vm\<lparr>Memory := m\<rparr>, Inl e)
                | Inr bytecodeInstruction \<Rightarrow>
                    (case decode bytecodeInstruction of
                       Inl e \<Rightarrow> (vm\<lparr>Memory := m\<rparr>, Inl e)
                     | Inr instruction \<Rightarrow>
                         (vm\<lparr>Memory := m,
                             instructions := (instructions vm)
                               (Offset (Pc (Context vm)) \<mapsto> instruction)\<rparr>,
                          Inr instruction)))))"

definition RunStep ::
  "(felt \<Rightarrow> error + Instruction) \<Rightarrow> VirtualMachine \<Rightarrow> VirtualMachine \<times> error option" where
  "RunStep decode vm =
     (case fetch decode vm of
        (vm1, Inl e) \<Rightarrow> (vm1, Some e)
      | (vm1, Inr instruction) \<Rightarrow>
          (let vm2 = (if ProofMode (config vm1)
                      then vm1\<lparr>Trace := Trace vm1 @ [Context vm1]\<rparr> else vm1)
           in case RunInstruction (Context vm2) (Memory vm2) instruction of
                (m, Inl e) \<Rightarrow> (vm2\<lparr>Memory := m\<rparr>, Some e)
              | (m, Inr ctx) \<Rightarrow>
                  (vm2\<lparr>Memory := m, Context := ctx, Step := Step vm2 + 1\<rparr>, None)))"

definition relocateTrace :: "VirtualMachine \<Rightarrow> error + Trace list" where
  "relocateTrace vm =
     (if Segments (Memory vm) = [] then Inl GoPanic
      else
        (let totalBytecode = Len (Segments (Memory vm) ! unat ProgramSegment) + 1
         in Inr (map (\<lambda>ctx. Relocate ctx totalBytecode) (Trace vm))))"

definition ExecutionTrace :: "VirtualMachine \<Rightarrow> error + Trace list" where
  "ExecutionTrace vm =
     (if \<not> ProofMode (config vm) then Inl ErrProofModeOff else relocateTrace vm)"

section \<open>The runner\<close>

text \<open>
  The fields of \<open>Program\<close> that the runner reads. The runner's \<open>memoryManager.Memory\<close> and
  its \<open>vm.Memory\<close> are one pointer: the memory of a runner is \<open>Memory (vm runner)\<close>. The
  hint runner is never called.
\<close>

record Program =
  Bytecode :: "felt list"
  Labels :: "string \<rightharpoonup> u64"
  Entrypoints :: "string \<rightharpoonup> u64"

record ZeroRunner =
  program :: Program
  vm :: VirtualMachine
  proofmode :: bool
  maxsteps :: u64
  runFinished :: bool

definition with_memory :: "ZeroRunner \<Rightarrow> Memory \<Rightarrow> ZeroRunner" where
  "with_memory runner m = runner\<lparr>vm := (vm runner)\<lparr>Memory := m\<rparr>\<rparr>"

definition segments :: "ZeroRunner \<Rightarrow> Segment list" where
  "segments runner = Segments (Memory (vm runner))"

definition steps :: "ZeroRunner \<Rightarrow> u64" where
  "steps runner = Step (vm runner)"

definition pc :: "ZeroRunner \<Rightarrow> MemoryAddress" where
  "pc runner = Pc (Context (vm runner))"

definition NewRunner :: "Program \<Rightarrow> bool \<Rightarrow> u64 \<Rightarrow> error + ZeroRunner" where
  "NewRunner prog pm maxs =
     (case AllocateSegment InitializeEmptyMemory (Bytecode prog) of
        (m, Inl e) \<Rightarrow> Inl e
      | (m, Inr _) \<Rightarrow>
          (case NewVirtualMachine \<lparr>Pc = UnknownValue, Fp = 0, Ap = 0\<rparr>
                  (fst (AllocateEmptySegment m)) \<lparr>ProofMode = pm\<rparr> of
             Inl e \<Rightarrow> Inl e
           | Inr machine \<Rightarrow>
               Inr \<lparr>program = prog, vm = machine, proofmode = pm, maxsteps = maxs,
                    runFinished = False\<rparr>))"

text \<open>The loop of \<open>InitializeEntrypoint\<close> that writes the arguments from offset \<open>0\<close>.\<close>

fun write_arguments :: "Memory \<Rightarrow> nat \<Rightarrow> felt list \<Rightarrow> Memory \<times> error option" where
  "write_arguments m i [] = (m, None)"
| "write_arguments m i (x # xs) =
     (case Memory_Write m ExecutionSegment (word_of_nat i) (MemoryValueFromFieldElement x) of
        (m1, Some e) \<Rightarrow> (m1, Some e)
      | (m1, None) \<Rightarrow> write_arguments m1 (Suc i) xs)"

definition InitializeEntrypoint ::
  "ZeroRunner \<Rightarrow> string \<Rightarrow> felt list \<Rightarrow> MemoryValue \<Rightarrow> ZeroRunner \<times> (error + MemoryAddress)" where
  "InitializeEntrypoint runner funcName arguments returnFp =
     (case AllocateEmptySegment (Memory (vm runner)) of
        (m0, segmentIndex) \<Rightarrow>
     (let end = \<lparr>SegmentIndex = word_of_nat segmentIndex, Offset = 0\<rparr> in
      case write_arguments m0 0 arguments of
        (m1, Some e) \<Rightarrow> (with_memory runner m1, Inl e)
      | (m1, None) \<Rightarrow>
          if length (Segments m1) \<le> unat ExecutionSegment
          then (with_memory runner m1, Inl GoPanic)
          else
            (let offset = Len (Segments m1 ! unat ExecutionSegment) in
             case Memory_Write m1 ExecutionSegment offset returnFp of
               (m2, Some e) \<Rightarrow> (with_memory runner m2, Inl e)
             | (m2, None) \<Rightarrow>
                 (case Memory_Write m2 ExecutionSegment (offset + 1)
                         (MemoryValueFromMemoryAddress end) of
                    (m3, Some e) \<Rightarrow> (with_memory runner m3, Inl e)
                  | (m3, None) \<Rightarrow>
                      (case Entrypoints (program runner) funcName of
                         None \<Rightarrow> (with_memory runner m3, Inl ErrUnknownEntrypoint)
                       | Some p \<Rightarrow>
                           (runner\<lparr>vm := (vm runner)
                              \<lparr>Memory := m3,
                               Context :=
                                 \<lparr>Pc = \<lparr>SegmentIndex = ProgramSegment, Offset = p\<rparr>,
                                  Fp = offset + 2, Ap = offset + 2\<rparr>\<rparr>\<rparr>,
                            Inr end))))))"

definition InitializeMainEntrypoint :: "ZeroRunner \<Rightarrow> ZeroRunner \<times> (error + MemoryAddress)" where
  "InitializeMainEntrypoint runner =
     (if proofmode runner then
        (case Labels (program runner) ''__start__'' of
           None \<Rightarrow> (runner, Inl ErrMissingLabel)
         | Some startPc \<Rightarrow>
        (case Labels (program runner) ''__end__'' of
           None \<Rightarrow> (runner, Inl ErrMissingLabel)
         | Some endPc \<Rightarrow>
             if length (segments runner) \<le> unat ExecutionSegment then (runner, Inl GoPanic)
             else
               (let offset = Len (segments runner ! unat ExecutionSegment);
                    dummyFPValue = MemoryValueFromSegmentAndOffset ProgramSegment
                      (Len (segments runner ! unat ProgramSegment) + offset + 2)
                in case Memory_Write (Memory (vm runner)) ExecutionSegment offset dummyFPValue of
                     (m1, Some e) \<Rightarrow> (with_memory runner m1, Inl e)
                   | (m1, None) \<Rightarrow>
                       (case Memory_Write m1 ExecutionSegment (offset + 1)
                               (MemoryValueFromUint 0) of
                          (m2, Some e) \<Rightarrow> (with_memory runner m2, Inl e)
                        | (m2, None) \<Rightarrow>
                            (runner\<lparr>vm := (vm runner)
                               \<lparr>Memory := m2,
                                Context :=
                                  \<lparr>Pc = \<lparr>SegmentIndex = ProgramSegment, Offset = startPc\<rparr>,
                                   Fp = offset + 2, Ap = offset + 2\<rparr>\<rparr>\<rparr>,
                             Inr \<lparr>SegmentIndex = ProgramSegment, Offset = endPc\<rparr>)))))
      else
        (case AllocateEmptySegment (Memory (vm runner)) of
           (m, segmentIndex) \<Rightarrow>
             InitializeEntrypoint (with_memory runner m) ''main'' []
               (MemoryValueFromSegmentAndOffset (word_of_nat segmentIndex) 0)))"

lemma fetch_Step: "Step (fst (fetch decode machine)) = Step machine"
  by (simp add: fetch_def split: option.split prod.split sum.split)

lemma RunStep_Step:
  "RunStep decode machine = (machine', None) \<Longrightarrow> Step machine' = Step machine + 1"
  using fetch_Step[of decode machine]
  by (auto simp: RunStep_def Let_def split: prod.splits sum.splits if_splits)

lemma steps_left_decrease:
  assumes "\<not> maxs \<le> Step machine" and "RunStep decode machine = (machine', None)"
  shows "unat (maxs :: u64) - unat (Step machine') < unat maxs - unat (Step machine)"
proof -
  have lt: "unat (Step machine) < unat maxs"
    using assms(1) by (simp add: word_le_nat_alt)
  have "unat (Step machine) + unat (1 :: u64) < 2 ^ LENGTH(64)"
    using lt unsigned_less[of maxs, where 'a = nat] by simp
  then have "unat (Step machine + 1) = unat (Step machine) + 1"
    by (simp only: unat_add_lem[THEN iffD1] unat_1)
  then show ?thesis
    using lt RunStep_Step[OF assms(2)] by simp
qed

function RunUntilPc ::
  "(felt \<Rightarrow> error + Instruction) \<Rightarrow> ZeroRunner \<Rightarrow> MemoryAddress \<Rightarrow> ZeroRunner \<times> error option" where
  "RunUntilPc decode runner p =
     (if Pc (Context (vm runner)) = p then (runner, None)
      else if steps runner \<ge> maxsteps runner then (runner, Some ErrMaxStepsExceeded)
      else
        (case RunStep decode (vm runner) of
           (machine, Some e) \<Rightarrow> (runner\<lparr>vm := machine\<rparr>, Some e)
         | (machine, None) \<Rightarrow> RunUntilPc decode (runner\<lparr>vm := machine\<rparr>) p))"
  by pat_completeness auto
termination
  by (relation "measure (\<lambda>(decode, runner, p). unat (maxsteps runner) - unat (steps runner))")
     (auto simp: steps_def steps_left_decrease)

declare RunUntilPc.simps [simp del]

function RunFor ::
  "(felt \<Rightarrow> error + Instruction) \<Rightarrow> ZeroRunner \<Rightarrow> u64 \<Rightarrow> ZeroRunner \<times> error option" where
  "RunFor decode runner n =
     (if \<not> steps runner < n then (runner, None)
      else if steps runner \<ge> maxsteps runner then (runner, Some ErrMaxStepsExceeded)
      else
        (case RunStep decode (vm runner) of
           (machine, Some e) \<Rightarrow> (runner\<lparr>vm := machine\<rparr>, Some e)
         | (machine, None) \<Rightarrow> RunFor decode (runner\<lparr>vm := machine\<rparr>) n))"
  by pat_completeness auto
termination
  by (relation "measure (\<lambda>(decode, runner, n). unat (maxsteps runner) - unat (steps runner))")
     (auto simp: steps_def steps_left_decrease)

declare RunFor.simps [simp del]

text \<open>
  \<open>safemath.NextPowerOfTwo\<close> is not among the sources, and the specification says "next
  power of two" without saying what that is at a power of two: \<open>Run\<close> takes the function as
  the parameter \<open>nextPowerOfTwo\<close>.
\<close>

definition Run ::
  "(felt \<Rightarrow> error + Instruction) \<Rightarrow> (u64 \<Rightarrow> u64) \<Rightarrow> ZeroRunner \<Rightarrow> ZeroRunner \<times> error option" where
  "Run decode nextPowerOfTwo runner =
     (if runFinished runner then (runner, Some ErrReRun)
      else
        (case InitializeMainEntrypoint runner of
           (r1, Inl e) \<Rightarrow> (r1, Some e)
         | (r1, Inr end) \<Rightarrow>
             (case RunUntilPc decode r1 end of
                (r2, Some e) \<Rightarrow> (r2, Some e)
              | (r2, None) \<Rightarrow>
                  if proofmode r2 then
                    (case RunFor decode r2 1 of
                       (r3, Some e) \<Rightarrow> (r3, Some e)
                     | (r3, None) \<Rightarrow>
                         (let pow2Steps = nextPowerOfTwo (Step (vm r3))
                          in RunFor decode r3 pow2Steps))
                  else (r2, None))))"

section \<open>The binary trace\<close>

text \<open>
  \<open>binary.LittleEndian.AppendUint64\<close> and \<open>binary.LittleEndian.Uint64\<close> of Go's library:
  the eight bytes of a 64-bit number, the least significant first.
\<close>

definition AppendUint64 :: "8 word list \<Rightarrow> u64 \<Rightarrow> 8 word list" where
  "AppendUint64 b v =
     b @ [ucast v, ucast (drop_bit 8 v), ucast (drop_bit 16 v), ucast (drop_bit 24 v),
          ucast (drop_bit 32 v), ucast (drop_bit 40 v), ucast (drop_bit 48 v),
          ucast (drop_bit 56 v)]"

definition LittleEndian_Uint64 :: "8 word list \<Rightarrow> u64" where
  "LittleEndian_Uint64 b =
     ucast (b ! 0) OR push_bit 8 (ucast (b ! 1)) OR push_bit 16 (ucast (b ! 2)) OR
     push_bit 24 (ucast (b ! 3)) OR push_bit 32 (ucast (b ! 4)) OR
     push_bit 40 (ucast (b ! 5)) OR push_bit 48 (ucast (b ! 6)) OR
     push_bit 56 (ucast (b ! 7))"

definition ctxSize :: nat where
  "ctxSize = 3 * 8"

fun EncodeTrace_loop :: "8 word list \<Rightarrow> Trace list \<Rightarrow> 8 word list" where
  "EncodeTrace_loop content [] = content"
| "EncodeTrace_loop content (t # ts) =
     EncodeTrace_loop
       (AppendUint64 (AppendUint64 (AppendUint64 content (Trace_Ap t)) (Trace_Fp t)) (Trace_Pc t))
       ts"

definition EncodeTrace :: "Trace list \<Rightarrow> 8 word list" where
  "EncodeTrace trace = EncodeTrace_loop [] trace"

text \<open>
  \<open>DecodeTrace\<close>: the loop runs while bytes are left and takes \<open>ctxSize\<close> of them at a time.
  The content is taken to fill its capacity, so that a slice expression beyond its length
  panics.
\<close>

function DecodeTrace_loop :: "Trace list \<Rightarrow> 8 word list \<Rightarrow> error + Trace list" where
  "DecodeTrace_loop trace content =
     (if content = [] then Inr trace
      else if length content < ctxSize then Inl GoPanic
      else
        DecodeTrace_loop
          (trace @
           [\<lparr>Trace_Pc = LittleEndian_Uint64 (take 8 (drop 16 content)),
             Trace_Fp = LittleEndian_Uint64 (take 8 (drop 8 content)),
             Trace_Ap = LittleEndian_Uint64 (take 8 content)\<rparr>])
          (drop ctxSize content))"
  by pat_completeness auto
termination
  by (relation "measure (\<lambda>(trace, content). length content)") (auto simp: ctxSize_def)

declare DecodeTrace_loop.simps [simp del]

definition DecodeTrace :: "8 word list \<Rightarrow> error + Trace list" where
  "DecodeTrace content = DecodeTrace_loop [] content"

section \<open>A small program\<close>

text \<open>
  A decoder that reads every word as one instruction without effect on memory or
  registers but the step to the next word; a two-word program with the labels of proof
  mode; the runner that \<open>NewRunner\<close> builds for it in proof mode with a limit of ten steps.
\<close>

definition nop_instruction :: Instruction where
  "nop_instruction =
     \<lparr>OffDest = 0, OffOp0 = 0, OffOp1 = 0, DstRegister = RegAp, Op0Register = RegAp,
      Op1Source = ApPlusOffOp1, Res = Op1, PcUpdate = NextInstr, ApUpdate = SameAp,
      Opcode = Nop\<rparr>"

definition decode_nop :: "felt \<Rightarrow> error + Instruction" where
  "decode_nop word = Inr nop_instruction"

definition example_program :: Program where
  "example_program =
     \<lparr>Bytecode = [0, 0], Labels = [''__start__'' \<mapsto> 0, ''__end__'' \<mapsto> 1],
      Entrypoints = Map.empty\<rparr>"

definition example_runner :: ZeroRunner where
  "example_runner = (case NewRunner example_program True 10 of Inr r \<Rightarrow> r)"

definition plain_runner :: ZeroRunner where
  "plain_runner = (case NewRunner example_program False 10 of Inr r \<Rightarrow> r)"

text \<open>
  Modelled from the spec: the two readings of "next power of two" for \<open>safemath.NextPowerOfTwo\<close>,
  which is not among the sources: the least power of two greater than the number, and the
  least power of two that is not below it. Both are in 64 bits.
\<close>

function power_above :: "nat \<Rightarrow> nat \<Rightarrow> nat" where
  "power_above p n = (if p = 0 \<or> n < p then p else power_above (2 * p) n)"
  by pat_completeness auto
termination
  by (relation "measure (\<lambda>(p, n). Suc n - p)") auto

declare power_above.simps [simp del]

function power_from :: "nat \<Rightarrow> nat \<Rightarrow> nat" where
  "power_from p n = (if p = 0 \<or> n \<le> p then p else power_from (2 * p) n)"
  by pat_completeness auto
termination
  by (relation "measure (\<lambda>(p, n). n - p)") auto

declare power_from.simps [simp del]

definition next_power_above :: "u64 \<Rightarrow> u64" where
  "next_power_above n = word_of_nat (power_above 1 (unat n))"

definition next_power_at_least :: "u64 \<Rightarrow> u64" where
  "next_power_at_least n = word_of_nat (power_from 1 (unat n))"

text \<open>
  An \<open>AssertEq\<close> instruction that adds its operands (\<open>dst\<close> at \<open>[ap]\<close>, the operands at
  \<open>[ap + 1]\<close> and \<open>[ap + 2]\<close> once the addresses are resolved), and a memory whose execution
  segment holds the given cells.
\<close>

definition assert_add :: Instruction where
  "assert_add = nop_instruction\<lparr>Res := AddOperands, Opcode := AssertEq\<rparr>"

definition cells :: "MemoryValue list \<Rightarrow> Memory" where
  "cells xs =
     \<lparr>Segments = [EmptySegment,
        \<lparr>Data = xs, Cap = length xs, LastIndex = word_of_nat (length xs) - 1,
         BuiltinRunner = NoBuiltin\<rparr>]\<rparr>"

definition exec_at :: "u64 \<Rightarrow> MemoryAddress" where
  "exec_at off = \<lparr>SegmentIndex = ExecutionSegment, Offset = off\<rparr>"

section \<open>Properties of segments\<close>

lemma BuiltinRunner_is_NoBuiltin: "b = NoBuiltin"
  by (cases b) simp

lemma grow_to_in_range:
  "unat offset < length (Data segment) \<Longrightarrow> grow_to segment offset = (segment, None)"
  by (simp add: grow_to_def RealLen_def)

lemma Segment_Write_ok:
  assumes "Segment_Write S off v = (S1, None)"
  shows "unat off < length (Data S1)" "Data S1 ! unat off = v"
        "off < Len S1 \<or> LastIndex S1 = off"
  using assms
  by (auto simp: Segment_Write_def Let_def Len_def not_le split: prod.splits option.splits if_splits)

lemma Segment_Write_known_cell:
  assumes "unat off < length (Data S)" "off < Len S \<or> LastIndex S = off"
  shows "Segment_Write S off v =
     (if Known (Data S ! unat off) \<and> Data S ! unat off \<noteq> v then (S, Some ErrRewriteCell)
      else (S\<lparr>Data := (Data S)[unat off := v]\<rparr>, None))"
  using assms
  by (auto simp: Segment_Write_def grow_to_in_range Let_def Equal_def Len_def not_le BuiltinRunner_is_NoBuiltin[of "BuiltinRunner S"])

text \<open>
  Claim C2. Let \<open>v1\<close> be a value (a field element or an address) and let the write of
  \<open>v1\<close> at offset \<open>off\<close> of a segment have succeeded. A second write at the same offset
  fails with the rewrite error exactly when the new value differs from \<open>v1\<close>; with the
  same value it succeeds and leaves the segment as it is.
\<close>

theorem write_twice:
  assumes "Known v1" and "Segment_Write S off v1 = (S1, None)"
  shows "(snd (Segment_Write S1 off v2) = Some ErrRewriteCell) = (v1 \<noteq> v2) \<and>
         (v1 = v2 \<longrightarrow> Segment_Write S1 off v2 = (S1, None))"
  using Segment_Write_ok[OF assms(2)] assms(1)
  by (auto simp: Segment_Write_known_cell)

theorem write_twice_witness:
  "Known (Felt 3) \<and> snd (Segment_Write EmptySegment 0 (Felt 3)) = None \<and>
   snd (Segment_Write (fst (Segment_Write EmptySegment 0 (Felt 3))) 0 (Felt 4)) = Some ErrRewriteCell \<and>
   Segment_Write (fst (Segment_Write EmptySegment 0 (Felt 3))) 0 (Felt 3) = (fst (Segment_Write EmptySegment 0 (Felt 3)), None)"
proof -
  have w: "snd (Segment_Write EmptySegment 0 (Felt 3)) = None"
    by (simp add: Segment_Write_def grow_to_def RealLen_def IncreaseSegmentSize_def EmptySegment_def Len_def Let_def)
  then have e: "Segment_Write EmptySegment 0 (Felt 3) = (fst (Segment_Write EmptySegment 0 (Felt 3)), None)"
    by (simp add: prod_eq_iff)
  show ?thesis
    using write_twice[OF _ e, of "Felt 4"] write_twice[OF _ e, of "Felt 3"] w by simp
qed

subsection \<open>Growth\<close>

lemma sint_small: "unat (w :: u64) < 2 ^ 63 \<Longrightarrow> sint w = int (unat w)"
proof -
  assume a: "unat w < 2 ^ 63"
  have "int (unat w) < int (2 ^ 63)"
    using a by (rule of_nat_less_iff[THEN iffD2])
  then have lt: "uint w < 2 ^ 63" by (simp only: uint_nat of_nat_power of_nat_numeral)
  have ge: "- (2 ^ 63) \<le> uint w"
    by (rule order_trans[of _ 0]) simp_all
  have "signed_take_bit 63 (uint w) = uint w"
    using ge lt by (rule signed_take_bit_int_eq_self)
  moreover have "sint w = signed_take_bit (LENGTH(64) - Suc 0) (uint w)"
    by (rule sint_uint)
  moreover have "LENGTH(64) - Suc 0 = 63" by simp
  ultimately show ?thesis by (simp only: uint_nat)
qed

lemma full_or_empty_Increase:
  "full_or_empty s \<Longrightarrow> full_or_empty (fst (IncreaseSegmentSize s n))"
  by (auto simp: full_or_empty_def IncreaseSegmentSize_def Let_def)

lemma full_or_empty_grow: "full_or_empty s \<Longrightarrow> full_or_empty (fst (grow_to s off))"
  by (simp add: grow_to_def full_or_empty_Increase)

lemma full_or_empty_Data_upd:
  "full_or_empty s \<Longrightarrow> full_or_empty (s\<lparr>Data := (Data s)[i := v]\<rparr>)"
  by (auto simp: full_or_empty_def)

lemma full_or_empty_LastIndex_upd [simp]:
  "full_or_empty (s\<lparr>LastIndex := i\<rparr>) = full_or_empty s"
  by (auto simp: full_or_empty_def)

lemma full_or_empty_Write: "full_or_empty s \<Longrightarrow> full_or_empty (fst (Segment_Write s off v))"
  using full_or_empty_grow[of s off]
  by (auto simp: Segment_Write_def Let_def full_or_empty_def split: prod.splits option.splits)

lemma full_or_empty_Read: "full_or_empty s \<Longrightarrow> full_or_empty (fst (Segment_Read s off))"
  using full_or_empty_grow[of s off]
  by (auto simp: Segment_Read_def Let_def full_or_empty_def
        BuiltinRunner_is_NoBuiltin[of "BuiltinRunner _"] split: prod.splits option.splits)

lemma full_or_empty_Peek: "full_or_empty s \<Longrightarrow> full_or_empty (fst (Segment_Peek s off))"
  using full_or_empty_grow[of s off]
  by (auto simp: Segment_Peek_def Let_def full_or_empty_def split: prod.splits option.splits)

lemma reachable_full_or_empty: "segment_reachable s \<Longrightarrow> full_or_empty s"
proof (induction rule: segment_reachable.induct)
  case reach_EmptySegment
  show ?case by (simp add: full_or_empty_def EmptySegment_def)
next
  case (reach_WithCapacity c)
  show ?case by (simp add: full_or_empty_def EmptySegmentWithCapacity_def)
next
  case (reach_WithLength n)
  show ?case by (simp add: full_or_empty_def EmptySegmentWithLength_def)
next
  case (reach_WithBuiltinRunner s b)
  then show ?case by (simp add: full_or_empty_def WithBuiltinRunner_def)
qed (simp_all add: full_or_empty_Increase full_or_empty_Write full_or_empty_Read full_or_empty_Peek)

lemma IncreaseSegmentSize_full:
  assumes "length (Data s) = Cap s" "length (Data s) \<le> unat off"
    and "max (unat off + 1) (2 * length (Data s)) < 2 ^ 63"
  shows "IncreaseSegmentSize s (off + 1) =
     (s\<lparr>Data := Data s @ replicate (max (unat off + 1) (2 * length (Data s)) - length (Data s)) Unknown,
        Cap := max (unat off + 1) (2 * length (Data s))\<rparr>, None)"
proof -
  have b: "unat off + 1 < 2 ^ 63" using assms(3) by simp
  have "unat off + unat (1 :: u64) < 2 ^ LENGTH(64)"
    using b by simp
  then have u: "unat (off + 1) = unat off + 1"
    by (simp only: unat_add_lem[THEN iffD1] unat_1)
  have s: "sint (off + 1) = int (unat off + 1)"
    using sint_small[of "off + 1"] b by (simp only: u)
  have c1: "\<not> int (length (Data s)) > sint (off + 1)"
    unfolding s using assms(2) by linarith
  have c2: "\<not> int (Cap s) > sint (off + 1)"
    unfolding s using assms(1,2) by linarith
  have c3: "\<not> 2 ^ 63 \<le> max (unat off + 1) (length (Data s) * 2)"
    using assms(3) by (simp only: mult.commute not_le)
  show ?thesis
    unfolding IncreaseSegmentSize_def Let_def
    by (simp only: c1 c2 c3 if_False u mult.commute)
qed

text \<open>
  Claim C4. Let a segment the sources can build have physical length \<open>L > 0\<close>, and let a
  write target an offset \<open>off \<ge> L\<close> (with the new length below \<open>2^63\<close>, as every length of
  a Go slice is). The write succeeds, the physical length becomes \<open>max (off + 1) (2 * L)\<close>,
  and every entry below \<open>L\<close> is as it was.
\<close>

theorem Write_growth_policy:
  assumes "segment_reachable S" and "0 < RealLen S" and "RealLen S \<le> unat off"
    and "max (unat off + 1) (2 * RealLen S) < 2 ^ 63"
  shows "snd (Segment_Write S off v) = None \<and>
         RealLen (fst (Segment_Write S off v)) = max (unat off + 1) (2 * RealLen S) \<and>
         (\<forall>i < RealLen S. Data (fst (Segment_Write S off v)) ! i = Data S ! i)"
proof -
  have full: "length (Data S) = Cap S"
    using reachable_full_or_empty[OF assms(1)] assms(2) by (auto simp: full_or_empty_def RealLen_def)
  have g: "grow_to S off =
     (S\<lparr>Data := Data S @ replicate (max (unat off + 1) (2 * length (Data S)) - length (Data S)) Unknown,
        Cap := max (unat off + 1) (2 * length (Data S))\<rparr>, None)"
    using assms(3,4) IncreaseSegmentSize_full[OF full, of off]
    by (simp add: grow_to_def RealLen_def)
  show ?thesis
    using assms(2,3)
    by (auto simp: Segment_Write_def g Let_def RealLen_def nth_append
        BuiltinRunner_is_NoBuiltin[of "BuiltinRunner _"])
qed

theorem Write_growth_policy_witness:
  "segment_reachable (fst (Segment_Write (EmptySegmentWithLength 2) 1 (Felt 7))) \<and>
   RealLen (fst (Segment_Write (EmptySegmentWithLength 2) 1 (Felt 7))) = 2 \<and>
   Data (fst (Segment_Write (EmptySegmentWithLength 2) 1 (Felt 7))) ! 1 = Felt 7 \<and>
   snd (Segment_Write (fst (Segment_Write (EmptySegmentWithLength 2) 1 (Felt 7))) 2 (Felt 9)) = None \<and>
   RealLen (fst (Segment_Write (fst (Segment_Write (EmptySegmentWithLength 2) 1 (Felt 7))) 2 (Felt 9))) = 4 \<and>
   Data (fst (Segment_Write (fst (Segment_Write (EmptySegmentWithLength 2) 1 (Felt 7))) 2 (Felt 9))) ! 1 = Felt 7"
proof -
  let ?S = "fst (Segment_Write (EmptySegmentWithLength 2) 1 (Felt 7))"
  have r: "segment_reachable ?S"
    by (intro reach_Write reach_WithLength)
  have S: "?S = \<lparr>Data = [Unknown, Felt 7], Cap = 2, LastIndex = 1, BuiltinRunner = NoBuiltin\<rparr>"
    by (simp add: Segment_Write_def grow_to_def RealLen_def EmptySegmentWithLength_def Len_def
        Let_def numeral_2_eq_2)
  have l: "RealLen ?S = 2" and d: "Data ?S ! 1 = Felt 7"
    by (simp_all add: S RealLen_def)
  have h1: "0 < RealLen ?S" and h2: "RealLen ?S \<le> unat (2 :: u64)"
    and h3: "max (unat (2 :: u64) + 1) (2 * RealLen ?S) < 2 ^ 63"
    by (simp_all add: l)
  show ?thesis
    using Write_growth_policy[OF r h1 h2 h3, of "Felt 9"] r l d by simp
qed

subsection \<open>A failed write\<close>

text \<open>
  Claim C9, as it is stated, says that a write that fails with the rewrite error changes
  nothing. \<open>Write\<close> moves \<open>LastIndex\<close> before it looks at the cell: on the empty segment,
  \<open>Read\<close> at offset \<open>0\<close> infers the zero and leaves \<open>Len\<close> at \<open>0\<close>; the write of \<open>5\<close> at
  offset \<open>0\<close> then fails with the rewrite error and \<open>Len\<close> has become \<open>1\<close>.
\<close>

theorem failed_write_moves_LastIndex:
  "snd (Segment_Read EmptySegment 0) = Inr (Felt 0) \<and>
   Data (fst (Segment_Read EmptySegment 0)) ! 0 = Felt 0 \<and>
   Len (fst (Segment_Read EmptySegment 0)) = 0 \<and>
   snd (Segment_Write (fst (Segment_Read EmptySegment 0)) 0 (Felt 5)) = Some ErrRewriteCell \<and>
   Len (fst (Segment_Write (fst (Segment_Read EmptySegment 0)) 0 (Felt 5))) = 1 \<and>
   fst (Segment_Write (fst (Segment_Read EmptySegment 0)) 0 (Felt 5)) \<noteq>
     fst (Segment_Read EmptySegment 0)"
  by code_simp

text \<open>
  Claim C9, amended. Let the cell at offset \<open>off\<close> hold the known value \<open>v\<close> and let
  \<open>w \<noteq> v\<close>. The write of \<open>w\<close> at \<open>off\<close> fails with the rewrite error and every cell of the
  segment is as it was. When \<open>off\<close> is below the logical length the whole segment is
  unchanged; otherwise the failed write has set \<open>LastIndex\<close> to \<open>off\<close> and changed nothing
  else.
\<close>

theorem failed_write_keeps_cells:
  assumes "unat off < length (Data S)" and "Data S ! unat off = v" and "Known v" and "w \<noteq> v"
  shows "snd (Segment_Write S off w) = Some ErrRewriteCell \<and>
         Data (fst (Segment_Write S off w)) = Data S \<and>
         (off < Len S \<longrightarrow> fst (Segment_Write S off w) = S) \<and>
         (\<not> off < Len S \<longrightarrow> fst (Segment_Write S off w) = S\<lparr>LastIndex := off\<rparr>)"
  using assms
  by (auto simp: Segment_Write_def grow_to_in_range Let_def Equal_def not_less)

theorem failed_write_keeps_cells_witness:
  "snd (Segment_Write (fst (Segment_Write EmptySegment 0 (Felt 3))) 0 (Felt 4)) = Some ErrRewriteCell \<and>
   Data (fst (Segment_Write (fst (Segment_Write EmptySegment 0 (Felt 3))) 0 (Felt 4))) ! 0 = Felt 3 \<and>
   fst (Segment_Write (fst (Segment_Write EmptySegment 0 (Felt 3))) 0 (Felt 4)) =
     fst (Segment_Write EmptySegment 0 (Felt 3))"
proof -
  let ?S = "fst (Segment_Write EmptySegment 0 (Felt 3))"
  have S: "?S = \<lparr>Data = Felt 3 # replicate 99 Unknown, Cap = 100, LastIndex = 0, BuiltinRunner = NoBuiltin\<rparr>"
    by (simp add: Segment_Write_def grow_to_def RealLen_def IncreaseSegmentSize_def EmptySegment_def
        Len_def Let_def eval_nat_numeral)
  have h1: "unat (0 :: u64) < length (Data ?S)" and h2: "Data ?S ! unat (0 :: u64) = Felt 3"
    and h5: "(0 :: u64) < Len ?S"
    by (simp_all add: S Len_def)
  have h3: "Known (Felt 3)" and h4: "Felt 4 \<noteq> Felt 3" by simp_all
  show ?thesis
    using failed_write_keeps_cells[OF h1 h2 h3 h4] h2 h5 by simp
qed

subsection \<open>The logical length\<close>

text \<open>
  Claim C8 says that a \<open>Read\<close> or a \<open>Peek\<close> at an offset at or beyond \<open>Len\<close> makes \<open>Len\<close>
  become the offset plus one. The evaluation below is of the empty segment, whose \<open>Len\<close> is
  \<open>0\<close>: \<open>Read\<close> at offset \<open>0\<close> returns the inferred zero and leaves \<open>Len\<close> at \<open>0\<close>,
  where \<open>Peek\<close> and \<open>Write\<close> at offset \<open>0\<close> make it \<open>1\<close>.
\<close>

theorem Read_at_Len_keeps_Len:
  "Len EmptySegment = 0 \<and>
   snd (Segment_Read EmptySegment 0) = Inr (Felt 0) \<and>
   Len (fst (Segment_Read EmptySegment 0)) = 0 \<and>
   Len (fst (Segment_Peek EmptySegment 0)) = 1 \<and>
   Len (fst (Segment_Write EmptySegment 0 (Felt 0))) = 1"
  by (simp add: Segment_Read_def Segment_Peek_def Segment_Write_def grow_to_def RealLen_def
      IncreaseSegmentSize_def EmptySegment_def Len_def Let_def EmptyMemoryValueAsFelt_def Equal_def)

section \<open>Properties of the trace\<close>

text \<open>
  Claim C6. Trace relocation maps every recorded snapshot \<open>(pc, ap, fp)\<close> to
  \<open>(pc.offset + 1, ap + off, fp + off)\<close>, where \<open>off\<close> is the logical length of the program
  segment plus one (the additions are those of \<open>uint64\<close>). The memory has its program
  segment; the relocated trace is as long as the recorded one.
\<close>

theorem relocateTrace_snapshot:
  assumes "Segments (Memory machine) \<noteq> []" and "i < length (Trace machine)"
  shows "\<exists>relocated. relocateTrace machine = Inr relocated \<and>
           length relocated = length (Trace machine) \<and>
           relocated ! i =
             \<lparr>Trace_Pc = Offset (Pc (Trace machine ! i)) + 1,
              Trace_Fp = Fp (Trace machine ! i) + (Len (Segments (Memory machine) ! 0) + 1),
              Trace_Ap = Ap (Trace machine ! i) + (Len (Segments (Memory machine) ! 0) + 1)\<rparr>"
  using assms by (simp add: relocateTrace_def Relocate_def ProgramSegment_def Let_def)

theorem relocateTrace_snapshot_witness:
  "Segments (Memory (vm (fst (Run decode_nop next_power_above example_runner)))) \<noteq> [] \<and>
   length (Trace (vm (fst (Run decode_nop next_power_above example_runner)))) = 2 \<and>
   Trace (vm (fst (Run decode_nop next_power_above example_runner))) ! 1 =
     \<lparr>Pc = \<lparr>SegmentIndex = 0, Offset = 1\<rparr>, Fp = 2, Ap = 2\<rparr> \<and>
   Len (Segments (Memory (vm (fst (Run decode_nop next_power_above example_runner)))) ! 0) = 2 \<and>
   (\<exists>relocated. relocateTrace (vm (fst (Run decode_nop next_power_above example_runner))) = Inr relocated \<and>
      length relocated = 2 \<and>
      relocated ! 1 = \<lparr>Trace_Pc = 2, Trace_Fp = 5, Trace_Ap = 5\<rparr>)"
proof -
  let ?machine = "vm (fst (Run decode_nop next_power_above example_runner))"
  have h1: "Segments (Memory ?machine) \<noteq> []" by code_simp
  have l: "length (Trace ?machine) = 2" by code_simp
  have h2: "1 < length (Trace ?machine)" by (simp add: l)
  have t: "Trace ?machine ! 1 = \<lparr>Pc = \<lparr>SegmentIndex = 0, Offset = 1\<rparr>, Fp = 2, Ap = 2\<rparr>"
    by code_simp
  have p: "Len (Segments (Memory ?machine) ! 0) = 2" by code_simp
  show ?thesis
    using relocateTrace_snapshot[OF h1 h2] h1 l t p by simp
qed

subsection \<open>The binary encoding\<close>

lemma byte_at:
  "k \<le> 56 \<Longrightarrow> bit (push_bit k (ucast (ucast (drop_bit k (v::u64)) :: 8 word)) :: u64) n
     = (k \<le> n \<and> n < k + 8 \<and> bit v n)"
  by (auto simp: bit_simps)

lemma byte_at_0:
  "bit (ucast (ucast (v::u64) :: 8 word) :: u64) n = (n < 8 \<and> bit v n)"
  by (auto simp: bit_simps)

lemma or_of_bytes:
  "(ucast (ucast v :: 8 word) :: u64) OR
   push_bit 8 (ucast (ucast (drop_bit 8 v) :: 8 word)) OR
   push_bit 16 (ucast (ucast (drop_bit 16 v) :: 8 word)) OR
   push_bit 24 (ucast (ucast (drop_bit 24 v) :: 8 word)) OR
   push_bit 32 (ucast (ucast (drop_bit 32 v) :: 8 word)) OR
   push_bit 40 (ucast (ucast (drop_bit 40 v) :: 8 word)) OR
   push_bit 48 (ucast (ucast (drop_bit 48 v) :: 8 word)) OR
   push_bit 56 (ucast (ucast (drop_bit 56 v) :: 8 word)) = (v :: u64)"
proof (rule bit_eqI)
  fix n
  assume "possible_bit TYPE(u64) n"
  then have n: "n < 64" by (simp add: possible_bit_word)
  show "bit ((ucast (ucast v :: 8 word) :: u64) OR
   push_bit 8 (ucast (ucast (drop_bit 8 v) :: 8 word)) OR
   push_bit 16 (ucast (ucast (drop_bit 16 v) :: 8 word)) OR
   push_bit 24 (ucast (ucast (drop_bit 24 v) :: 8 word)) OR
   push_bit 32 (ucast (ucast (drop_bit 32 v) :: 8 word)) OR
   push_bit 40 (ucast (ucast (drop_bit 40 v) :: 8 word)) OR
   push_bit 48 (ucast (ucast (drop_bit 48 v) :: 8 word)) OR
   push_bit 56 (ucast (ucast (drop_bit 56 v) :: 8 word))) n = bit v n"
    unfolding bit_or_iff byte_at_0
    using n by (cases "bit v n") (simp_all add: byte_at, arith)
qed


definition le_bytes :: "u64 \<Rightarrow> 8 word list" where
  "le_bytes v = AppendUint64 [] v"

lemma length_le_bytes [simp]: "length (le_bytes v) = 8"
  by (simp add: le_bytes_def AppendUint64_def)

lemma AppendUint64_le_bytes: "AppendUint64 b v = b @ le_bytes v"
  by (simp add: le_bytes_def AppendUint64_def)

lemma Uint64_le_bytes: "LittleEndian_Uint64 (le_bytes v) = v"
  unfolding LittleEndian_Uint64_def le_bytes_def AppendUint64_def
  using or_of_bytes[of v] by simp

definition record_bytes :: "Trace \<Rightarrow> 8 word list" where
  "record_bytes t = le_bytes (Trace_Ap t) @ le_bytes (Trace_Fp t) @ le_bytes (Trace_Pc t)"

lemma length_record_bytes [simp]: "length (record_bytes t) = 24"
  by (simp add: record_bytes_def)

lemma EncodeTrace_loop_append:
  "EncodeTrace_loop content ts = content @ concat (map record_bytes ts)"
  by (induction ts arbitrary: content) (simp_all add: AppendUint64_le_bytes record_bytes_def)

lemma EncodeTrace_concat: "EncodeTrace ts = concat (map record_bytes ts)"
  by (simp add: EncodeTrace_def EncodeTrace_loop_append)

lemma DecodeTrace_loop_record:
  "DecodeTrace_loop acc (record_bytes t @ rest) = DecodeTrace_loop (acc @ [t]) rest"
proof -
  have ne: "record_bytes t \<noteq> []"
  proof
    assume "record_bytes t = []"
    then have "length (record_bytes t) = 0" by simp
    then show False by (simp only: length_record_bytes)
  qed
  have ap: "LittleEndian_Uint64 (take 8 (record_bytes t)) = Trace_Ap t"
    by (simp add: record_bytes_def Uint64_le_bytes)
  have fp: "LittleEndian_Uint64 (take 8 (drop 8 (record_bytes t))) = Trace_Fp t"
    by (simp add: record_bytes_def Uint64_le_bytes)
  have pc: "LittleEndian_Uint64 (drop 16 (record_bytes t)) = Trace_Pc t"
    by (simp add: record_bytes_def Uint64_le_bytes)
  have t: "\<lparr>Trace_Pc = Trace_Pc t, Trace_Fp = Trace_Fp t, Trace_Ap = Trace_Ap t\<rparr> = t"
    by (cases t) simp
  show ?thesis
    by (subst DecodeTrace_loop.simps) (simp add: ne ap fp pc t ctxSize_def)
qed

lemma DecodeTrace_loop_concat:
  "DecodeTrace_loop acc (concat (map record_bytes ts)) = Inr (acc @ ts)"
proof (induction ts arbitrary: acc)
  case Nil
  show ?case by (subst DecodeTrace_loop.simps) simp
next
  case (Cons t ts)
  show ?case by (simp add: DecodeTrace_loop_record Cons.IH)
qed

lemma length_EncodeTrace: "length (EncodeTrace t) = 24 * length t"
  unfolding EncodeTrace_concat by (induction t) simp_all

lemma EncodeTrace_Cons:
  "EncodeTrace (x # t) =
     AppendUint64 [] (Trace_Ap x) @ AppendUint64 [] (Trace_Fp x) @ AppendUint64 [] (Trace_Pc x) @
     EncodeTrace t"
  unfolding EncodeTrace_concat by (simp add: record_bytes_def le_bytes_def)

text \<open>
  Claim C7. Decoding the encoding of a list of trace entries gives the list back. The
  encoding has 24 bytes for every entry: the eight bytes of \<open>Ap\<close>, of \<open>Fp\<close> and of \<open>Pc\<close>, in
  this order, each with the least significant byte first.
\<close>

theorem DecodeTrace_EncodeTrace:
  "DecodeTrace (EncodeTrace t) = Inr t \<and>
   length (EncodeTrace t) = 24 * length t \<and>
   EncodeTrace (x # t) =
     AppendUint64 [] (Trace_Ap x) @ AppendUint64 [] (Trace_Fp x) @ AppendUint64 [] (Trace_Pc x) @
     EncodeTrace t"
proof (intro conjI)
  show "DecodeTrace (EncodeTrace t) = Inr t"
    by (simp add: DecodeTrace_def EncodeTrace_concat DecodeTrace_loop_concat)
  show "length (EncodeTrace t) = 24 * length t"
    by (rule length_EncodeTrace)
  show "EncodeTrace (x # t) =
     AppendUint64 [] (Trace_Ap x) @ AppendUint64 [] (Trace_Fp x) @ AppendUint64 [] (Trace_Pc x) @
     EncodeTrace t"
    by (rule EncodeTrace_Cons)
qed

theorem DecodeTrace_EncodeTrace_witness:
  "EncodeTrace [\<lparr>Trace_Pc = 1, Trace_Fp = 2, Trace_Ap = 259\<rparr>] =
     [3, 1, 0, 0, 0, 0, 0, 0, 2, 0, 0, 0, 0, 0, 0, 0, 1, 0, 0, 0, 0, 0, 0, 0] \<and>
   DecodeTrace (EncodeTrace [\<lparr>Trace_Pc = 1, Trace_Fp = 2, Trace_Ap = 259\<rparr>]) =
     Inr [\<lparr>Trace_Pc = 1, Trace_Fp = 2, Trace_Ap = 259\<rparr>]"
proof -
  have e: "EncodeTrace [\<lparr>Trace_Pc = 1, Trace_Fp = 2, Trace_Ap = 259\<rparr>] =
     [3, 1, 0, 0, 0, 0, 0, 0, 2, 0, 0, 0, 0, 0, 0, 0, 1, 0, 0, 0, 0, 0, 0, 0]"
    by code_simp
  show ?thesis
    using DecodeTrace_EncodeTrace[of "[\<lparr>Trace_Pc = 1, Trace_Fp = 2, Trace_Ap = 259\<rparr>]"] e
    by simp
qed

section \<open>Properties of the runner\<close>

lemma RunUntilPc_fields:
  "runFinished (fst (RunUntilPc decode runner p)) = runFinished runner \<and>
   proofmode (fst (RunUntilPc decode runner p)) = proofmode runner \<and>
   maxsteps (fst (RunUntilPc decode runner p)) = maxsteps runner \<and>
   program (fst (RunUntilPc decode runner p)) = program runner"
proof (induction decode runner p rule: RunUntilPc.induct)
  case (1 decode runner p)
  show ?case
    using "1.IH"
    by (subst (1 2 3 4) RunUntilPc.simps) (auto split: prod.split option.split)
qed

lemma RunFor_fields:
  "runFinished (fst (RunFor decode runner n)) = runFinished runner \<and>
   proofmode (fst (RunFor decode runner n)) = proofmode runner \<and>
   maxsteps (fst (RunFor decode runner n)) = maxsteps runner \<and>
   program (fst (RunFor decode runner n)) = program runner"
proof (induction decode runner n rule: RunFor.induct)
  case (1 decode runner n)
  show ?case
    using "1.IH"
    by (subst (1 2 3 4) RunFor.simps) (auto split: prod.split option.split)
qed

lemma InitializeEntrypoint_fields:
  "runFinished (fst (InitializeEntrypoint runner f args fp)) = runFinished runner \<and>
   proofmode (fst (InitializeEntrypoint runner f args fp)) = proofmode runner"
  by (simp add: InitializeEntrypoint_def with_memory_def Let_def
      split: prod.split option.split)

lemma InitializeMainEntrypoint_fields:
  "runFinished (fst (InitializeMainEntrypoint runner)) = runFinished runner \<and>
   proofmode (fst (InitializeMainEntrypoint runner)) = proofmode runner"
  using InitializeEntrypoint_fields
  by (simp add: InitializeMainEntrypoint_def with_memory_def Let_def
      split: prod.split option.split)

text \<open>
  Claim C5 says that a second call of \<open>Run\<close> fails with the error of a runner that is used
  again. \<open>Run\<close> tests the field \<open>runFinished\<close> and nothing ever sets it: it is after \<open>Run\<close>
  what it was before, whatever \<open>Run\<close> returns. On the runner of the small program the first
  \<open>Run\<close> succeeds and the second runs again, up to a rewrite error of the initialisation,
  with either reading of the next power of two.
\<close>

lemma Run_runFinished:
  "runFinished (fst (Run decode nextPowerOfTwo runner)) = runFinished runner"
proof -
  obtain r1 x1 where i: "InitializeMainEntrypoint runner = (r1, x1)" by fastforce
  have f1: "runFinished r1 = runFinished runner"
    using InitializeMainEntrypoint_fields[of runner] i by simp
  show ?thesis
  proof (cases x1)
    case (Inl e)
    then show ?thesis using i f1 by (simp add: Run_def)
  next
    case (Inr endpc)
    obtain r2 x2 where u: "RunUntilPc decode r1 endpc = (r2, x2)" by fastforce
    have f2: "runFinished r2 = runFinished r1"
      using RunUntilPc_fields[of decode r1 endpc] u by simp
    obtain r3 x3 where a: "RunFor decode r2 1 = (r3, x3)" by fastforce
    have f3: "runFinished r3 = runFinished r2"
      using RunFor_fields[of decode r2 1] a by simp
    have f4: "runFinished (fst (RunFor decode r3 (nextPowerOfTwo (Step (vm r3))))) = runFinished r3"
      using RunFor_fields by blast
    show ?thesis
      using i Inr u a f1 f2 f3 f4
      by (simp add: Run_def Let_def split: option.split)
  qed
qed

theorem Run_keeps_runFinished:
  "runFinished (fst (Run decode nextPowerOfTwo runner)) = runFinished runner \<and>
   snd (Run decode_nop next_power_above example_runner) = None \<and>
   runFinished (fst (Run decode_nop next_power_above example_runner)) = False \<and>
   snd (Run decode_nop next_power_above (fst (Run decode_nop next_power_above example_runner))) =
     Some ErrRewriteCell \<and>
   snd (Run decode_nop next_power_at_least example_runner) = None \<and>
   runFinished (fst (Run decode_nop next_power_at_least example_runner)) = False \<and>
   snd (Run decode_nop next_power_at_least
          (fst (Run decode_nop next_power_at_least example_runner))) =
     Some ErrRewriteCell"
proof (intro conjI)
  show "runFinished (fst (Run decode nextPowerOfTwo runner)) = runFinished runner"
    by (rule Run_runFinished)
  show "snd (Run decode_nop next_power_above example_runner) = None"
    by code_simp
  show "runFinished (fst (Run decode_nop next_power_above example_runner)) = False"
    by code_simp
  show "snd (Run decode_nop next_power_above
               (fst (Run decode_nop next_power_above example_runner))) = Some ErrRewriteCell"
    by code_simp
  show "snd (Run decode_nop next_power_at_least example_runner) = None"
    by code_simp
  show "runFinished (fst (Run decode_nop next_power_at_least example_runner)) = False"
    by code_simp
  show "snd (Run decode_nop next_power_at_least
               (fst (Run decode_nop next_power_at_least example_runner))) = Some ErrRewriteCell"
    by code_simp
qed

subsection \<open>A failed initialisation\<close>

lemma Segment_Write_other_cells:
  assumes "Segment_Write S off v = (S1, e)" and "i < length (Data S)" and "i \<noteq> unat off"
  shows "i < length (Data S1) \<and> Data S1 ! i = Data S ! i"
  using assms
  by (auto simp: Segment_Write_def grow_to_def IncreaseSegmentSize_def Let_def nth_append
      split: prod.splits option.splits if_splits)

lemma Memory_Write_length:
  "Memory_Write m s off v = (m', e) \<Longrightarrow> length (Segments m') = length (Segments m)"
  by (auto simp: Memory_Write_def split: prod.splits if_splits)

lemma Memory_Write_ok:
  assumes "Memory_Write m s off v = (m', None)"
  shows "unat s < length (Segments m')"
    and "unat off < length (Data (Segments m' ! unat s))"
    and "Data (Segments m' ! unat s) ! unat off = v"
  using assms Segment_Write_ok(1,2)[of "Segments m ! unat s" off v]
  by (auto simp: Memory_Write_def split: prod.splits if_splits)

lemma Memory_Write_other_cells:
  assumes "Memory_Write m s off v = (m', e)" and "unat s < length (Segments m)"
    and "i < length (Data (Segments m ! unat s))" and "i \<noteq> unat off"
  shows "i < length (Data (Segments m' ! unat s)) \<and>
         Data (Segments m' ! unat s) ! i = Data (Segments m ! unat s) ! i"
  using assms Segment_Write_other_cells[of "Segments m ! unat s" off v _ _ i]
  by (auto simp: Memory_Write_def split: prod.splits if_splits)

lemma Segment_Write_errors:
  "Segment_Write S off v = (S1, Some e) \<Longrightarrow> e = GoPanic \<or> e = ErrRewriteCell"
  by (auto simp: Segment_Write_def grow_to_def IncreaseSegmentSize_def Let_def
      BuiltinRunner_is_NoBuiltin[of "BuiltinRunner _"] split: prod.splits option.splits if_splits)

lemma Memory_Write_errors:
  "Memory_Write m s off v = (m', Some e) \<Longrightarrow>
     e = GoPanic \<or> e = ErrRewriteCell \<or> e = ErrUnallocatedSegment"
  by (auto simp: Memory_Write_def split: prod.splits if_splits dest: Segment_Write_errors)

lemma write_arguments_errors:
  "write_arguments m i args = (m', Some e) \<Longrightarrow>
     e = GoPanic \<or> e = ErrRewriteCell \<or> e = ErrUnallocatedSegment"
proof (induction args arbitrary: m i)
  case Nil
  then show ?case by simp
next
  case (Cons x xs)
  then show ?case
    by (auto split: prod.splits option.splits dest: Memory_Write_errors)
qed

lemma write_arguments_length:
  "write_arguments m i args = (m', e) \<Longrightarrow> length (Segments m') = length (Segments m)"
proof (induction args arbitrary: m i)
  case Nil
  then show ?case by simp
next
  case (Cons x xs)
  then show ?case
    by (auto split: prod.splits option.splits dest: Memory_Write_length)
qed

text \<open>
  Claim C10. Let the name of the function be absent from the entry points of the program.
  \<open>InitializeEntrypoint\<close> never succeeds, and whenever it returns the error of the unknown
  entry point it has allocated one more segment and has written \<open>returnFp\<close> at the offset
  \<open>Len\<close> of the execution segment and the end address (the new segment, offset \<open>0\<close>) at
  the next offset: the memory is changed although the call failed.
\<close>

theorem InitializeEntrypoint_not_atomic:
  assumes "Entrypoints (program runner) funcName = None"
    and "offset = Len (Segments (fst (write_arguments
            (fst (AllocateEmptySegment (Memory (vm runner)))) 0 arguments)) ! 1)"
  shows "(\<forall>a. snd (InitializeEntrypoint runner funcName arguments returnFp) \<noteq> Inr a) \<and>
         (snd (InitializeEntrypoint runner funcName arguments returnFp) = Inl ErrUnknownEntrypoint \<longrightarrow>
            length (segments (fst (InitializeEntrypoint runner funcName arguments returnFp))) =
              length (segments runner) + 1 \<and>
            Data (segments (fst (InitializeEntrypoint runner funcName arguments returnFp)) ! 1)
              ! unat offset = returnFp \<and>
            Data (segments (fst (InitializeEntrypoint runner funcName arguments returnFp)) ! 1)
              ! unat (offset + 1) =
              Address \<lparr>SegmentIndex = word_of_nat (length (segments runner)), Offset = 0\<rparr>)"
proof -
  let ?m0 = "fst (AllocateEmptySegment (Memory (vm runner)))"
  let ?end = "\<lparr>SegmentIndex = word_of_nat (length (segments runner)), Offset = 0\<rparr>"
  have l0: "length (Segments ?m0) = length (segments runner) + 1"
    by (simp add: AllocateEmptySegment_def segments_def)
  obtain m1 e1 where w1: "write_arguments ?m0 0 arguments = (m1, e1)" by fastforce
  have l1: "length (Segments m1) = length (segments runner) + 1"
    using write_arguments_length[OF w1] l0 by simp
  have off: "offset = Len (Segments m1 ! 1)"
    using assms(2) w1 by simp
  obtain m2 e2 where w2: "Memory_Write m1 ExecutionSegment offset returnFp = (m2, e2)"
    by fastforce
  have l2: "length (Segments m2) = length (Segments m1)"
    using Memory_Write_length[OF w2] by simp
  obtain m3 e3 where w3: "Memory_Write m2 ExecutionSegment (offset + 1)
      (MemoryValueFromMemoryAddress ?end) = (m3, e3)"
    by fastforce
  have l3: "length (Segments m3) = length (Segments m2)"
    using Memory_Write_length[OF w3] by simp
  have unfold: "InitializeEntrypoint runner funcName arguments returnFp =
     (case e1 of Some e \<Rightarrow> (with_memory runner m1, Inl e)
      | None \<Rightarrow>
         if length (Segments m1) \<le> unat ExecutionSegment then (with_memory runner m1, Inl GoPanic)
         else (case e2 of Some e \<Rightarrow> (with_memory runner m2, Inl e)
               | None \<Rightarrow> (case e3 of Some e \<Rightarrow> (with_memory runner m3, Inl e)
                          | None \<Rightarrow> (with_memory runner m3, Inl ErrUnknownEntrypoint))))"
    using w1 w2 w3 assms(1) off
    by (simp add: InitializeEntrypoint_def AllocateEmptySegment_def segments_def Let_def
        ExecutionSegment_def split: option.split)
  have never: "\<forall>a. snd (InitializeEntrypoint runner funcName arguments returnFp) \<noteq> Inr a"
    unfolding unfold by (simp split: option.split)
  have mut: "length (segments (fst (InitializeEntrypoint runner funcName arguments returnFp))) =
              length (segments runner) + 1 \<and>
            Data (segments (fst (InitializeEntrypoint runner funcName arguments returnFp)) ! 1)
              ! unat offset = returnFp \<and>
            Data (segments (fst (InitializeEntrypoint runner funcName arguments returnFp)) ! 1)
              ! unat (offset + 1) = Address ?end"
    if err: "snd (InitializeEntrypoint runner funcName arguments returnFp) = Inl ErrUnknownEntrypoint"
  proof -
    have ok: "e1 = None \<and> e2 = None \<and> e3 = None"
      using err write_arguments_errors[of ?m0 0 arguments m1]
        Memory_Write_errors[of m1 ExecutionSegment offset returnFp m2]
        Memory_Write_errors[of m2 ExecutionSegment "offset + 1" _ m3] w1 w2 w3
      unfolding unfold by (auto split: option.splits if_splits)
    have res: "fst (InitializeEntrypoint runner funcName arguments returnFp) = with_memory runner m3"
      using err ok unfolding unfold by (auto split: option.splits if_splits)
    have c2: "unat offset < length (Data (Segments m2 ! 1))" "Data (Segments m2 ! 1) ! unat offset = returnFp"
      using Memory_Write_ok(2,3)[of m1 ExecutionSegment offset returnFp m2] w2 ok
      by (simp_all add: ExecutionSegment_def)
    have ex2: "unat ExecutionSegment < length (Segments m2)"
      using Memory_Write_ok(1)[of m1 ExecutionSegment offset returnFp m2] w2 ok by simp
    have ne: "unat offset \<noteq> unat (offset + 1)"
      by (simp add: word_unat_eq_iff[symmetric])
    have c3a: "Data (Segments m3 ! 1) ! unat offset = returnFp"
      using Memory_Write_other_cells[OF w3 ex2, of "unat offset"] c2 ne
      by (simp add: ExecutionSegment_def)
    have c3b: "Data (Segments m3 ! 1) ! unat (offset + 1) = Address ?end"
      using Memory_Write_ok(3)[of m2 ExecutionSegment "offset + 1" _ m3] w3 ok
      by (simp add: ExecutionSegment_def MemoryValueFromMemoryAddress_def)
    show ?thesis
      using c3a c3b l1 l2 l3 by (simp add: res segments_def with_memory_def)
  qed
  show ?thesis using never mut by blast
qed

theorem InitializeEntrypoint_not_atomic_witness:
  "Entrypoints (program plain_runner) ''main'' = None \<and>
   length (segments plain_runner) = 2 \<and>
   Len (Segments (fst (write_arguments
          (fst (AllocateEmptySegment (Memory (vm plain_runner)))) 0 [])) ! 1) = 0 \<and>
   snd (InitializeEntrypoint plain_runner ''main'' [] (Felt 5)) = Inl ErrUnknownEntrypoint \<and>
   length (segments (fst (InitializeEntrypoint plain_runner ''main'' [] (Felt 5)))) = 3 \<and>
   Data (segments (fst (InitializeEntrypoint plain_runner ''main'' [] (Felt 5))) ! 1) ! 0 = Felt 5 \<and>
   Data (segments (fst (InitializeEntrypoint plain_runner ''main'' [] (Felt 5))) ! 1) ! 1 =
     Address \<lparr>SegmentIndex = 2, Offset = 0\<rparr>"
proof -
  have h1: "Entrypoints (program plain_runner) ''main'' = None" by code_simp
  have l: "length (segments plain_runner) = 2" by code_simp
  have o: "Len (Segments (fst (write_arguments
          (fst (AllocateEmptySegment (Memory (vm plain_runner)))) 0 [])) ! 1) = 0"
    by code_simp
  have e: "snd (InitializeEntrypoint plain_runner ''main'' [] (Felt 5)) = Inl ErrUnknownEntrypoint"
    by code_simp
  show ?thesis
    using InitializeEntrypoint_not_atomic[OF h1 o[symmetric], of "Felt 5"] h1 l o e
    by simp
qed

subsection \<open>Padding in proof mode\<close>

lemma RunFor_steps:
  "RunFor decode runner n = (runner', None) \<Longrightarrow> steps runner' = max (steps runner) n"
proof (induction decode runner n arbitrary: runner' rule: RunFor.induct)
  case (1 decode runner n)
  show ?case
  proof (cases "steps runner < n")
    case False
    then show ?thesis
      using "1.prems" by (subst (asm) RunFor.simps) (auto simp: max_def not_less)
  next
    case True
    then have nm: "\<not> maxsteps runner \<le> steps runner"
      using "1.prems" by (subst (asm) RunFor.simps) (auto split: if_splits)
    obtain machine e where rs: "RunStep decode (vm runner) = (machine, e)" by fastforce
    have e: "e = None"
      using "1.prems" True nm rs by (subst (asm) RunFor.simps) (auto split: option.splits)
    have rec: "RunFor decode (runner\<lparr>vm := machine\<rparr>) n = (runner', None)"
      using "1.prems" True nm rs e by (subst (asm) RunFor.simps) simp
    have st: "steps (runner\<lparr>vm := machine\<rparr>) = steps runner + 1"
      using RunStep_Step[of decode "vm runner" machine] rs e by (simp add: steps_def)
    have "steps runner' = max (steps runner + 1) n"
      using "1.IH"[of machine e runner'] True nm rs e rec st by simp
    moreover have "steps runner + 1 \<le> n"
      using True by (rule inc_le)
    ultimately show ?thesis
      using True order.strict_implies_order[OF True] by (simp add: max_def)
  qed
qed

lemma RunFor_one_runs_nothing:
  assumes "1 \<le> steps runner"
  shows "RunFor decode runner 1 = (runner, None)"
proof -
  have "steps runner \<noteq> 0"
    using assms by (auto simp: word_le_nat_alt)
  then show ?thesis
    by (subst RunFor.simps) simp
qed

lemma Run_final_steps:
  assumes "proofmode runner" and "\<not> runFinished runner"
    and "InitializeMainEntrypoint runner = (r1, Inr endpc)"
    and "RunUntilPc decode r1 endpc = (r2, None)"
    and "1 \<le> steps r2"
    and "Run decode nextPowerOfTwo runner = (r3, None)"
  shows "steps r3 = max (steps r2) (nextPowerOfTwo (steps r2))"
proof -
  have pm1: "proofmode r1"
    using InitializeMainEntrypoint_fields[of runner] assms(1,3) by simp
  have pm2: "proofmode r2"
    using RunUntilPc_fields[of decode r1 endpc] assms(4) pm1 by simp
  have extra: "RunFor decode r2 1 = (r2, None)"
    using assms(5) by (rule RunFor_one_runs_nothing)
  have run: "Run decode nextPowerOfTwo runner = RunFor decode r2 (nextPowerOfTwo (steps r2))"
    using assms(2,3,4) pm2 extra by (simp add: Run_def Let_def steps_def)
  show ?thesis
    using RunFor_steps[of decode r2 "nextPowerOfTwo (steps r2)" r3] run assms(6) by simp
qed

text \<open>
  Claim C1 says that in proof mode, after \<open>RunUntilPc\<close> has reached the end address with
  \<open>S \<ge> 1\<close> steps, the runner runs one extra step and then pads, so that the final number of
  steps is a power of two and at least \<open>S + 1\<close>. \<open>RunFor\<close> runs until the number of steps
  is its argument, so \<open>RunFor(1)\<close> runs nothing once a step has been run, and the final
  number of steps is the maximum of \<open>S\<close> and the next power of two of \<open>S\<close> itself. The
  evaluation is of the small program, which reaches its end after one step: \<open>RunFor(1)\<close>
  leaves the runner as it is, and \<open>Run\<close> ends after one step when the next power of two of
  \<open>1\<close> is \<open>1\<close>, after two when it is \<open>2\<close>.
\<close>

theorem Run_runs_no_extra_step:
  "snd (InitializeMainEntrypoint example_runner) = Inr \<lparr>SegmentIndex = 0, Offset = 1\<rparr> \<and>
   snd (RunUntilPc decode_nop (fst (InitializeMainEntrypoint example_runner))
          \<lparr>SegmentIndex = 0, Offset = 1\<rparr>) = None \<and>
   steps (fst (RunUntilPc decode_nop (fst (InitializeMainEntrypoint example_runner))
          \<lparr>SegmentIndex = 0, Offset = 1\<rparr>)) = 1 \<and>
   RunFor decode_nop
     (fst (RunUntilPc decode_nop (fst (InitializeMainEntrypoint example_runner))
          \<lparr>SegmentIndex = 0, Offset = 1\<rparr>)) 1 =
     (fst (RunUntilPc decode_nop (fst (InitializeMainEntrypoint example_runner))
          \<lparr>SegmentIndex = 0, Offset = 1\<rparr>), None) \<and>
   next_power_at_least 1 = 1 \<and>
   snd (Run decode_nop next_power_at_least example_runner) = None \<and>
   steps (fst (Run decode_nop next_power_at_least example_runner)) = 1 \<and>
   next_power_above 1 = 2 \<and>
   snd (Run decode_nop next_power_above example_runner) = None \<and>
   steps (fst (Run decode_nop next_power_above example_runner)) = 2"
proof -
  let ?endpc = "\<lparr>SegmentIndex = 0, Offset = 1\<rparr> :: MemoryAddress"
  let ?r2 = "fst (RunUntilPc decode_nop (fst (InitializeMainEntrypoint example_runner)) ?endpc)"
  have i: "snd (InitializeMainEntrypoint example_runner) = Inr ?endpc" by code_simp
  have u: "snd (RunUntilPc decode_nop (fst (InitializeMainEntrypoint example_runner)) ?endpc) = None"
    by code_simp
  have s: "steps ?r2 = 1" by code_simp
  have "1 \<le> steps ?r2" by (simp add: s)
  then have extra: "RunFor decode_nop ?r2 1 = (?r2, None)"
    by (rule RunFor_one_runs_nothing)
  have p1: "next_power_at_least 1 = 1" by code_simp
  have r1: "snd (Run decode_nop next_power_at_least example_runner) = None" by code_simp
  have f1: "steps (fst (Run decode_nop next_power_at_least example_runner)) = 1" by code_simp
  have p2: "next_power_above 1 = 2" by code_simp
  have r2: "snd (Run decode_nop next_power_above example_runner) = None" by code_simp
  have f2: "steps (fst (Run decode_nop next_power_above example_runner)) = 2" by code_simp
  show ?thesis
    using i u s extra p1 r1 f1 p2 r2 f2 by (intro conjI)
qed
end
